theory Spec2Isabelle
  imports Complex_Main "HOL-Library.Word" "HOL-Library.Log_Nat"
begin

section \<open>JavaScript values used by the handlers\<close>

text \<open>
  A JavaScript string is a sequence of UTF-16 code units.  The regular expressions of the
  handlers (\<^verbatim>\<open>/\d+/\<close>, \<^verbatim>\<open>/[\r\n]+/g\<close>) and \<^verbatim>\<open>String.prototype.trim\<close> work on code units,
  so strings are lists of 16-bit words.  String literals of the source are ASCII and are
  written with \<open>js_str\<close>.
\<close>

type_synonym uchar = "16 word"
type_synonym js_string = "uchar list"

definition js_str :: "string \<Rightarrow> js_string" where
  "js_str s = map (\<lambda>c. of_nat (of_char c)) s"

definition is_digit :: "uchar \<Rightarrow> bool" where
  \<comment> \<open>the class \<^verbatim>\<open>\d\<close> of a regular expression without the unicode flag: 0 to 9\<close>
  "is_digit c = (0x30 \<le> c \<and> c \<le> 0x39)"

definition is_crlf :: "uchar \<Rightarrow> bool" where
  \<comment> \<open>the class \<^verbatim>\<open>[\r\n]\<close>\<close>
  "is_crlf c = (c = 0x0D \<or> c = 0x0A)"

definition is_js_whitespace :: "uchar \<Rightarrow> bool" where
  \<comment> \<open>WhiteSpace and LineTerminator of ECMAScript, the code units \<^verbatim>\<open>trim\<close> strips\<close>
  "is_js_whitespace c =
     (c \<in> set [0x09, 0x0A, 0x0B, 0x0C, 0x0D, 0x20, 0xA0, 0x1680, 0x2028, 0x2029,
                0x202F, 0x205F, 0x3000, 0xFEFF]
      \<or> (0x2000 \<le> c \<and> c \<le> 0x200A))"

definition trim :: "js_string \<Rightarrow> js_string" where
  "trim s = rev (dropWhile is_js_whitespace (rev (dropWhile is_js_whitespace s)))"

text \<open>
  A Number is an IEEE-754 double.  Finite doubles are rationals; \<open>to_Number\<close> is the
  rounding of a natural number to the nearest double (ties to even, overflow to
  infinity), which is how \<^verbatim>\<open>parseInt\<close> turns the integer it has read into a Number.
\<close>

datatype js_number = Fin rat | PosInf | NegInf | NaN

definition to_Number :: "nat \<Rightarrow> js_number" where
  "to_Number n =
     (if n < 2 ^ 53 then Fin (of_nat n)
      else let e = floorlog 2 n - 53;
               q = n div 2 ^ e;
               r = n mod 2 ^ e;
               q' = (if 2 ^ e < 2 * r \<or> (2 * r = 2 ^ e \<and> odd q) then q + 1 else q);
               v = q' * 2 ^ e
           in if 2 ^ 1024 \<le> v then PosInf else Fin (of_nat v))"

fun negate :: "js_number \<Rightarrow> js_number" where
  "negate (Fin q) = Fin (- q)"
| "negate PosInf = NegInf"
| "negate NegInf = PosInf"
| "negate NaN = NaN"

definition digit_value :: "uchar \<Rightarrow> nat" where
  \<comment> \<open>value of a digit of radix up to 36; 36 for a code unit that is no digit\<close>
  "digit_value c =
     (if 0x30 \<le> c \<and> c \<le> 0x39 then unat c - 0x30
      else if 0x61 \<le> c \<and> c \<le> 0x7A then unat c - 0x61 + 10
      else if 0x41 \<le> c \<and> c \<le> 0x5A then unat c - 0x41 + 10
      else 36)"

definition radix_value :: "nat \<Rightarrow> js_string \<Rightarrow> nat" where
  "radix_value radix z = foldl (\<lambda>n c. radix * n + digit_value c) 0 z"

definition parseInt :: "js_string \<Rightarrow> js_number" where
  \<comment> \<open>\<^verbatim>\<open>parseInt(string)\<close> with no radix argument\<close>
  "parseInt input =
     (let s = dropWhile is_js_whitespace input;
          neg = (s \<noteq> [] \<and> hd s = 0x2D);
          s1 = (if s \<noteq> [] \<and> (hd s = 0x2B \<or> hd s = 0x2D) then tl s else s);
          hex = (2 \<le> length s1 \<and> hd s1 = 0x30 \<and> (s1 ! 1 = 0x78 \<or> s1 ! 1 = 0x58));
          radix = (if hex then 16 else 10);
          s2 = (if hex then drop 2 s1 else s1);
          z = takeWhile (\<lambda>c. digit_value c < radix) s2
      in if z = [] then NaN
         else if neg then negate (to_Number (radix_value radix z))
         else to_Number (radix_value radix z))"

definition match_digits :: "js_string \<Rightarrow> js_string option" where
  \<comment> \<open>\<^verbatim>\<open>text.match(/\d+/)\<close>: the leftmost, longest run of digits; \<open>None\<close> is \<^verbatim>\<open>null\<close>\<close>
  "match_digits s =
     (let r = dropWhile (\<lambda>c. \<not> is_digit c) s
      in if r = [] then None else Some (takeWhile is_digit r))"

function replace_crlf :: "js_string \<Rightarrow> js_string" where
  \<comment> \<open>\<^verbatim>\<open>text.replace(/[\r\n]+/g, "\n")\<close>\<close>
  "replace_crlf [] = []"
| "replace_crlf (c # cs) =
     (if is_crlf c then 0x0A # replace_crlf (dropWhile is_crlf cs)
      else c # replace_crlf cs)"
  by pat_completeness auto
termination
  by (relation "measure length") (auto simp: less_Suc_eq_le length_dropWhile_le)

text \<open>
  The values \<^verbatim>\<open>JSON.parse\<close> produces.  An object is the list of its own properties;
  \<^verbatim>\<open>undefined\<close> is \<open>None\<close> of \<open>json option\<close>.
\<close>

datatype json =
    JNull
  | JBool bool
  | JNum js_number
  | JStr js_string
  | JArr "json list"
  | JObj "(js_string \<times> json) list"

fun truthy :: "json \<Rightarrow> bool" where
  "truthy JNull = False"
| "truthy (JBool b) = b"
| "truthy (JNum (Fin q)) = (q \<noteq> 0)"
| "truthy (JNum NaN) = False"
| "truthy (JNum PosInf) = True"
| "truthy (JNum NegInf) = True"
| "truthy (JStr s) = (s \<noteq> [])"
| "truthy (JArr xs) = True"
| "truthy (JObj kvs) = True"

fun truthy_opt :: "json option \<Rightarrow> bool" where
  "truthy_opt None = False"
| "truthy_opt (Some v) = truthy v"

fun isArray :: "json option \<Rightarrow> bool" where
  \<comment> \<open>\<^verbatim>\<open>Array.isArray\<close>\<close>
  "isArray (Some (JArr xs)) = True"
| "isArray _ = False"

text \<open>A thrown value: an \<^verbatim>\<open>Error\<close> object with its message and its stack trace.\<close>

record js_error =
  message :: js_string
  stack :: js_string


section \<open>Collaborators and effects\<close>

text \<open>
  The handlers reach the file system, the PDF parser, the generative model, the JSON
  parser and the process environment.  None of them is code of this repository: their
  answers are the fields of \<open>env\<close>, and a handler is a function of its request, the
  environment and the \<open>world\<close> it changes.  The world holds the file system and the
  trace of the effects so far, in order: the calls of the collaborators, the lines
  written with \<^verbatim>\<open>console.error\<close> and the responses sent.  Lines written with
  \<^verbatim>\<open>console.log\<close> are not recorded.
\<close>

datatype node = RegularFile | Directory | Protected

type_synonym fs = "(js_string \<times> node) list"

record response =
  status :: nat
  body :: json

datatype event =
    ExtractCall js_string
  | GenerateCall js_string
  | UnlinkCall js_string
  | ConsoleError string js_error
  | Respond response

record world =
  files :: fs
  trace :: "event list"

record env =
  JSON_parse :: "js_string \<Rightarrow> js_error + json"
  pdf_parse :: "fs \<Rightarrow> js_string \<Rightarrow> js_error + js_string option"
  generateContent :: "js_string \<Rightarrow> js_error + js_string"
  NODE_ENV :: "js_string option"
  stack_trace :: "js_string \<Rightarrow> js_string"
  ToString :: "json \<Rightarrow> js_error + js_string"
  Date_now :: nat

definition emit :: "event \<Rightarrow> world \<Rightarrow> world" where
  "emit e w = w\<lparr>trace := trace w @ [e]\<rparr>"

definition new_Error :: "env \<Rightarrow> string \<Rightarrow> js_error" where
  \<comment> \<open>\<^verbatim>\<open>new Error(msg)\<close>; the engine supplies the stack trace\<close>
  "new_Error env msg = \<lparr>message = js_str msg, stack = stack_trace env (js_str msg)\<rparr>"

fun get_prop :: "env \<Rightarrow> json \<Rightarrow> string \<Rightarrow> js_error + json option" where
  \<comment> \<open>\<^verbatim>\<open>value.name\<close> for the names the handlers read (score, suggestions, findings,
      coverLetter, jobDescription, skillsExperience): no prototype defines them, so only
      an object's own property is found; reading a property of \<^verbatim>\<open>null\<close> throws a TypeError\<close>
  "get_prop env JNull name = Inl (new_Error env (''Cannot read properties of null (reading '' @ [CHR 0x27] @ name @ [CHR 0x27] @ '')''))"
| "get_prop env (JObj kvs) name = Inr (map_of kvs (js_str name))"
| "get_prop env v name = Inr None"

fun destructure :: "env \<Rightarrow> json \<Rightarrow> string \<Rightarrow> js_error + json option" where
  \<comment> \<open>\<^verbatim>\<open>const { name } = req.body\<close>: as a property read, with the TypeError of a
      destructured \<^verbatim>\<open>null\<close>\<close>
  "destructure env JNull name =
     Inl (new_Error env (''Cannot destructure property '' @ [CHR 0x27] @ name @ [CHR 0x27]
            @ '' of '' @ [CHR 0x27] @ ''req.body'' @ [CHR 0x27] @ '' as it is null.''))"
| "destructure env v name = get_prop env v name"

definition res_json :: "nat \<Rightarrow> json \<Rightarrow> world \<Rightarrow> world" where
  \<comment> \<open>\<^verbatim>\<open>res.status(code).json(obj)\<close>; \<^verbatim>\<open>res.json(obj)\<close> is the code 200\<close>
  "res_json code obj w = emit (Respond \<lparr>status = code, body = obj\<rparr>) w"

definition js_object :: "(string \<times> json option) list \<Rightarrow> json" where
  \<comment> \<open>an object literal handed to \<^verbatim>\<open>res.json\<close>: a property whose value is \<^verbatim>\<open>undefined\<close>
      is left out, as it is from the JSON text sent; the values are kept as they are (a
      Number that is not finite would be written \<^verbatim>\<open>null\<close>)\<close>
  "js_object props =
     JObj (concat (map (\<lambda>(k, v). case v of None \<Rightarrow> [] | Some x \<Rightarrow> [(js_str k, x)]) props))"

fun template_value :: "env \<Rightarrow> json option \<Rightarrow> js_error + js_string" where
  \<comment> \<open>\<^verbatim>\<open>${value}\<close> in a template literal: the conversion of the language, which throws
      a TypeError for an object that cannot be converted to a primitive\<close>
  "template_value env None = Inr (js_str ''undefined'')"
| "template_value env (Some (JStr s)) = Inr s"
| "template_value env (Some v) = ToString env v"

subsection \<open>The file system\<close>

definition existsSync :: "fs \<Rightarrow> js_string \<Rightarrow> bool" where
  "existsSync fsys p = (map_of fsys p \<noteq> None)"

definition unlinkSync :: "env \<Rightarrow> fs \<Rightarrow> js_string \<Rightarrow> js_error + fs" where
  \<comment> \<open>removes a regular file; throws for a missing path (ENOENT), a directory and a file
      the system refuses to remove (EPERM)\<close>
  "unlinkSync env fsys p =
     (case map_of fsys p of
        None \<Rightarrow> Inl (new_Error env ''ENOENT: no such file or directory, unlink'')
      | Some RegularFile \<Rightarrow> Inr (filter (\<lambda>kv. fst kv \<noteq> p) fsys)
      | Some Directory \<Rightarrow> Inl (new_Error env ''EPERM: operation not permitted, unlink'')
      | Some Protected \<Rightarrow> Inl (new_Error env ''EPERM: operation not permitted, unlink''))"

subsection \<open>Helpers of the source\<close>

definition extractTextFromPDF :: "env \<Rightarrow> js_string \<Rightarrow> world \<Rightarrow> (js_error + js_string option) \<times> world" where
  "extractTextFromPDF env filePath w =
     (let w1 = emit (ExtractCall filePath) w
      in case pdf_parse env (files w1) filePath of
           Inr text \<Rightarrow> (Inr text, w1)
         | Inl error \<Rightarrow>
             (Inl (new_Error env ''Failed to extract text from PDF''),
              emit (ConsoleError ''PDF extraction error:'' error) w1))"

definition cleanupFile_try :: "env \<Rightarrow> js_string \<Rightarrow> world \<Rightarrow> (js_error + unit) \<times> world" where
  \<comment> \<open>the \<^verbatim>\<open>try\<close> block of \<open>cleanupFile\<close>\<close>
  "cleanupFile_try env filePath w =
     (if existsSync (files w) filePath
      then let w1 = emit (UnlinkCall filePath) w
           in case unlinkSync env (files w1) filePath of
                Inl error \<Rightarrow> (Inl error, w1)
              | Inr fsys \<Rightarrow> (Inr (), w1\<lparr>files := fsys\<rparr>)
      else (Inr (), w))"

definition cleanupFile :: "env \<Rightarrow> js_string \<Rightarrow> world \<Rightarrow> (js_error + unit) \<times> world" where
  "cleanupFile env filePath w =
     (case cleanupFile_try env filePath w of
        (Inr u, w1) \<Rightarrow> (Inr u, w1)
      | (Inl error, w1) \<Rightarrow> (Inr (), emit (ConsoleError ''Error cleaning up file:'' error) w1))"


section \<open>The request handlers\<close>

text \<open>
  The main server has three routes.  The second deployment variant has the ATS route only,
  with the same handler, helpers and upload configuration; it differs in the CORS origin
  and the default port.
\<close>

record incoming_file =
  fieldname :: js_string
  originalname :: js_string
  mimetype :: js_string
  size_bytes :: nat

record uploaded_file = incoming_file +
  path :: js_string

record request =
  req_file :: "uploaded_file option"
  req_body :: json

subsection \<open>Prompt templates\<close>

definition ats_prompt :: "js_string \<Rightarrow> js_string" where
  \<open>ats_prompt pdfText =
     js_str ''You are an ATS (Applicant Tracking System) expert. Analyze this resume and provide:\<newline>    1. A score from 0-100 based on ATS compatibility\<newline>    2. Key findings about the resume's ATS-friendliness\<newline>    3. Specific suggestions for improvement\<newline>\<newline>    Resume content:\<newline>    ''
     @ pdfText
     @ js_str ''\<newline>\<newline>    Provide the response in the following JSON format only:\<newline>    {\<newline>      "score": number,\<newline>      "findings": [string],\<newline>      "suggestions": [string]\<newline>    }''\<close>

definition cover_letter_prompt :: "js_string \<Rightarrow> js_string \<Rightarrow> js_string" where
  \<comment> \<open>the template of the cover-letter route, given the job description as a string\<close>
  \<open>cover_letter_prompt resumeText jobDescription =
     js_str ''You are a professional cover letter writer. Using the provided resume and job description, create a compelling cover letter. The cover letter should:\<newline>    1. Be tailored to the specific job\<newline>    2. Highlight relevant experience from the resume\<newline>    3. Show enthusiasm for the role\<newline>    4. Be professional but personable\<newline>    5. Be around 300-400 words\<newline>\<newline>    Resume content:\<newline>    ''
     @ resumeText
     @ js_str ''\<newline>\<newline>    Job Description:\<newline>    ''
     @ jobDescription
     @ js_str ''\<newline>\<newline>   Provide the response in the following JSON format only:\<newline>    {\<newline>      "coverLetter": string (the complete cover letter),\<newline>    }''\<close>

definition text_prompt :: "js_string \<Rightarrow> js_string \<Rightarrow> js_string" where
  \<comment> \<open>the template of the text route, given its two values as strings\<close>
  \<open>text_prompt skillsExperience jobDescription =
     js_str ''You are a professional cover letter writer. Using the provided skills/experience and job description, create a compelling cover letter. The cover letter should: \<newline>    1. Be tailored to the specific job \<newline>    2. Highlight relevant experience from the provided background \<newline>    3. Show enthusiasm for the role \<newline>    4. Be professional but personable \<newline>    5. Be around 300-400 words\<newline>\<newline>    Candidate's Skills and Experience: ''
     @ skillsExperience
     @ js_str ''\<newline>    Job Description: ''
     @ jobDescription
     @ js_str ''\<newline>\<newline>    Provide the response in the following JSON format only: \<newline>    {\<newline>      "coverLetter": string (the complete cover letter),\<newline>    }''\<close>

subsection \<open>POST /api/ats-check\<close>

definition ats_strict :: "env \<Rightarrow> js_string \<Rightarrow> world \<Rightarrow> (js_error + unit) \<times> world" where
  \<comment> \<open>the inner \<^verbatim>\<open>try\<close> block: parse, validate, respond\<close>
  "ats_strict env responseText w =
     (case JSON_parse env responseText of
        Inl e \<Rightarrow> (Inl e, w)
      | Inr parsedResponse \<Rightarrow>
          (case get_prop env parsedResponse ''score'' of
             Inl e \<Rightarrow> (Inl e, w)
           | Inr score \<Rightarrow>
               if \<not> truthy_opt score
               then (Inl (new_Error env ''Invalid response format from AI''), w)
               else
                 (case get_prop env parsedResponse ''suggestions'' of
                    Inl e \<Rightarrow> (Inl e, w)
                  | Inr suggestions \<Rightarrow>
                      if \<not> isArray suggestions
                      then (Inl (new_Error env ''Invalid response format from AI''), w)
                      else
                        (case get_prop env parsedResponse ''findings'' of
                           Inl e \<Rightarrow> (Inl e, w)
                         | Inr findings \<Rightarrow>
                             (Inr (),
                              res_json 200
                                (js_object
                                  [(''score'', score),
                                   (''findings'',
                                      if truthy_opt findings then findings else Some (JArr [])),
                                   (''suggestions'', suggestions)]) w)))))"

definition ats_fallback :: "js_string \<Rightarrow> world \<Rightarrow> world" where
  \<comment> \<open>the inner \<^verbatim>\<open>catch\<close> block after its log line\<close>
  "ats_fallback responseText w =
     (let scoreMatch = match_digits responseText;
          score = (case scoreMatch of Some m \<Rightarrow> parseInt m | None \<Rightarrow> Fin 70)
      in res_json 200
           (js_object
             [(''score'', Some (JNum score)),
              (''findings'', Some (JArr [JStr (js_str ''Analysis completed'')])),
              (''suggestions'', Some (JArr [JStr (js_str ''Consider reviewing the resume format'')]))]) w)"

definition ats_normalize :: "env \<Rightarrow> js_string \<Rightarrow> world \<Rightarrow> (js_error + unit) \<times> world" where
  "ats_normalize env responseText w =
     (case ats_strict env responseText w of
        (Inr u, w1) \<Rightarrow> (Inr u, w1)
      | (Inl parseError, w1) \<Rightarrow>
          (Inr (), ats_fallback responseText (emit (ConsoleError ''Parse error:'' parseError) w1)))"

definition ats_try :: "env \<Rightarrow> request \<Rightarrow> world \<Rightarrow> (js_error + unit) \<times> js_string option \<times> world" where
  \<comment> \<open>the outer \<^verbatim>\<open>try\<close> block; the second component is \<^verbatim>\<open>filePath\<close> when the block is left\<close>
  "ats_try env req w =
     (case req_file req of
        None \<Rightarrow> (Inl (new_Error env ''No file uploaded''), None, w)
      | Some f \<Rightarrow>
          (let filePath = Some (path f)
           in case extractTextFromPDF env (path f) w of
                (Inl e, w1) \<Rightarrow> (Inl e, filePath, w1)
              | (Inr None, w1) \<Rightarrow>
                  (Inl (new_Error env ''Could not extract text from PDF''), filePath, w1)
              | (Inr (Some pdfText), w1) \<Rightarrow>
                  if pdfText = [] \<or> length (trim pdfText) = 0
                  then (Inl (new_Error env ''Could not extract text from PDF''), filePath, w1)
                  else
                    (let prompt = ats_prompt pdfText;
                         w2 = emit (GenerateCall prompt) w1
                     in case generateContent env prompt of
                          Inl e \<Rightarrow> (Inl e, filePath, w2)
                        | Inr responseText \<Rightarrow>
                            (case ats_normalize env responseText w2 of
                               (r, w3) \<Rightarrow> (r, filePath, w3)))))"

definition error_payload :: "env \<Rightarrow> string \<Rightarrow> js_error \<Rightarrow> json" where
  \<comment> \<open>the object of the outer \<^verbatim>\<open>catch\<close> blocks of the two upload routes\<close>
  "error_payload env fallback_message error =
     js_object
       [(''error'', Some (JStr (if message error \<noteq> [] then message error
                                 else js_str fallback_message))),
        (''details'', if NODE_ENV env = Some (js_str ''development'')
                      then Some (JStr (stack error)) else None)]"

definition finally_cleanup :: "env \<Rightarrow> js_string option \<Rightarrow> world \<Rightarrow> (js_error + unit) \<times> world" where
  \<comment> \<open>\<^verbatim>\<open>if (filePath) { cleanupFile(filePath); }\<close>\<close>
  "finally_cleanup env filePath w =
     (case filePath of
        None \<Rightarrow> (Inr (), w)
      | Some p \<Rightarrow> if p \<noteq> [] then cleanupFile env p w else (Inr (), w))"

definition ats_check :: "env \<Rightarrow> request \<Rightarrow> world \<Rightarrow> (js_error + unit) \<times> world" where
  "ats_check env req w =
     (case ats_try env req w of
        (Inr u, filePath, w1) \<Rightarrow> finally_cleanup env filePath w1
      | (Inl error, filePath, w1) \<Rightarrow>
          finally_cleanup env filePath
            (res_json 500 (error_payload env ''Failed to check ATS score'' error)
               (emit (ConsoleError ''Error in ATS check:'' error) w1)))"


subsection \<open>POST /api/generate-cover-letter\<close>

definition cover_strict :: "env \<Rightarrow> js_string \<Rightarrow> js_error + json option" where
  \<comment> \<open>parse and validate, shared by the two cover-letter routes: the parsed
      \<^verbatim>\<open>coverLetter\<close>, or the exception\<close>
  "cover_strict env responseText =
     (case JSON_parse env responseText of
        Inl e \<Rightarrow> Inl e
      | Inr parsedResponse \<Rightarrow>
          (case get_prop env parsedResponse ''coverLetter'' of
             Inl e \<Rightarrow> Inl e
           | Inr coverLetter \<Rightarrow>
               if \<not> truthy_opt coverLetter
               then Inl (new_Error env ''Invalid response format from AI'')
               else Inr coverLetter))"

definition cover_fallback_data :: "string \<Rightarrow> js_string \<Rightarrow> json" where
  \<comment> \<open>the object of the inner \<^verbatim>\<open>catch\<close> blocks; the routes differ in the highlight\<close>
  "cover_fallback_data highlight responseText =
     (let letterContent = trim (replace_crlf responseText)
      in js_object
           [(''coverLetter'', Some (JStr letterContent)),
            (''highlights'', Some (JArr [JStr (js_str highlight)])),
            (''suggestedImprovements'',
               Some (JArr [JStr (js_str ''Consider reviewing and personalizing the generated content'')]))])"

definition cover_normalize :: "env \<Rightarrow> js_string \<Rightarrow> world \<Rightarrow> (js_error + unit) \<times> world" where
  "cover_normalize env responseText w =
     (case cover_strict env responseText of
        Inr coverLetter \<Rightarrow>
          (Inr (), res_json 200 (js_object [(''coverLetter'', coverLetter)]) w)
      | Inl parseError \<Rightarrow>
          (Inr (),
           res_json 200
             (cover_fallback_data ''Letter generated based on your resume and job description''
                responseText)
             (emit (ConsoleError ''Parse error:'' parseError) w)))"

definition cover_try :: "env \<Rightarrow> request \<Rightarrow> world \<Rightarrow> (js_error + unit) \<times> js_string option \<times> world" where
  "cover_try env req w =
     (case req_file req of
        None \<Rightarrow> (Inl (new_Error env ''No resume file uploaded''), None, w)
      | Some f \<Rightarrow>
          (case get_prop env (req_body req) ''jobDescription'' of
             Inl e \<Rightarrow> (Inl e, None, w)
           | Inr jobDescription \<Rightarrow>
               if \<not> truthy_opt jobDescription
               then (Inl (new_Error env ''No job description provided''), None, w)
               else
                 (let filePath = Some (path f)
                  in case extractTextFromPDF env (path f) w of
                       (Inl e, w1) \<Rightarrow> (Inl e, filePath, w1)
                     | (Inr None, w1) \<Rightarrow>
                         (Inl (new_Error env ''Could not extract text from resume PDF''),
                          filePath, w1)
                     | (Inr (Some resumeText), w1) \<Rightarrow>
                         if resumeText = [] \<or> length (trim resumeText) = 0
                         then (Inl (new_Error env ''Could not extract text from resume PDF''),
                               filePath, w1)
                         else
                           (case template_value env jobDescription of
                              Inl e \<Rightarrow> (Inl e, filePath, w1)
                            | Inr jd \<Rightarrow>
                                (let prompt = cover_letter_prompt resumeText jd;
                                     w2 = emit (GenerateCall prompt) w1
                                 in case generateContent env prompt of
                                      Inl e \<Rightarrow> (Inl e, filePath, w2)
                                    | Inr responseText \<Rightarrow>
                                        (case cover_normalize env responseText w2 of
                                           (r, w3) \<Rightarrow> (r, filePath, w3)))))))"

definition generate_cover_letter :: "env \<Rightarrow> request \<Rightarrow> world \<Rightarrow> (js_error + unit) \<times> world" where
  "generate_cover_letter env req w =
     (case cover_try env req w of
        (Inr u, filePath, w1) \<Rightarrow> finally_cleanup env filePath w1
      | (Inl error, filePath, w1) \<Rightarrow>
          finally_cleanup env filePath
            (res_json 500 (error_payload env ''Failed to generate cover letter'' error)
               (emit (ConsoleError ''Error in cover letter generation:'' error) w1)))"

subsection \<open>POST /api/generate-cover-letter/text\<close>

definition text_normalize :: "env \<Rightarrow> js_string \<Rightarrow> world \<Rightarrow> (js_error + unit) \<times> world" where
  "text_normalize env responseText w =
     (case cover_strict env responseText of
        Inr coverLetter \<Rightarrow>
          (Inr (),
           res_json 200
             (js_object
               [(''success'', Some (JBool True)),
                (''data'', Some (js_object [(''coverLetter'', coverLetter)]))]) w)
      | Inl parseError \<Rightarrow>
          (Inr (),
           res_json 200
             (js_object
               [(''success'', Some (JBool True)),
                (''data'',
                   Some (cover_fallback_data
                     ''Letter generated based on your background and job description''
                     responseText))])
             (emit (ConsoleError ''Parse error:'' parseError) w)))"

definition text_try :: "env \<Rightarrow> request \<Rightarrow> world \<Rightarrow> (js_error + unit) \<times> world" where
  "text_try env req w =
     (case destructure env (req_body req) ''jobDescription'' of
        Inl e \<Rightarrow> (Inl e, w)
      | Inr jobDescription \<Rightarrow>
          (case destructure env (req_body req) ''skillsExperience'' of
             Inl e \<Rightarrow> (Inl e, w)
           | Inr skillsExperience \<Rightarrow>
               if \<not> truthy_opt jobDescription \<or> \<not> truthy_opt skillsExperience
               then (Inr (),
                     res_json 400
                       (js_object
                         [(''success'', Some (JBool False)),
                          (''error'', Some (JStr (js_str
                             ''Both job description and skills/experience are required'')))]) w)
               else
                 (case template_value env skillsExperience of
                    Inl e \<Rightarrow> (Inl e, w)
                  | Inr se \<Rightarrow>
                      (case template_value env jobDescription of
                         Inl e \<Rightarrow> (Inl e, w)
                       | Inr jd \<Rightarrow>
                           (let prompt = text_prompt se jd;
                                w1 = emit (GenerateCall prompt) w
                            in case generateContent env prompt of
                                 Inl e \<Rightarrow> (Inl e, w1)
                               | Inr responseText \<Rightarrow> text_normalize env responseText w1)))))"

definition generate_cover_letter_text :: "env \<Rightarrow> request \<Rightarrow> world \<Rightarrow> (js_error + unit) \<times> world" where
  "generate_cover_letter_text env req w =
     (case text_try env req w of
        (Inr u, w1) \<Rightarrow> (Inr u, w1)
      | (Inl error, w1) \<Rightarrow>
          (Inr (),
           res_json 500
             (js_object
               [(''success'', Some (JBool False)),
                (''error'', Some (JStr (js_str ''Failed to generate cover letter''))),
                (''details'', if NODE_ENV env = Some (js_str ''development'')
                              then Some (JStr (message error)) else None)])
             (emit (ConsoleError ''Error generating cover letter:'' error) w1)))"


subsection \<open>The upload middleware\<close>

text \<open>
  The two upload routes run \<^verbatim>\<open>upload.single("resume")\<close> before their handler.  The
  source configures it: the file filter, the size limit and the storage callbacks below.
\<close>

record upload_request =
  part :: "incoming_file option"
  text_fields :: json

definition fileFilter :: "env \<Rightarrow> incoming_file \<Rightarrow> js_error + bool" where
  "fileFilter env f =
     (if mimetype f = js_str ''application/pdf'' then Inr True
      else Inl (new_Error env ''Only PDF files are allowed''))"

definition fileSize :: nat where
  "fileSize = 5 * 1024 * 1024"

definition destination :: "fs \<Rightarrow> js_string \<times> fs" where
  \<comment> \<open>the upload directory, created when it does not exist\<close>
  "destination fsys =
     (let uploadDir = js_str ''uploads''
      in (uploadDir,
          if \<not> existsSync fsys uploadDir then (uploadDir, Directory) # fsys else fsys))"

function decimal :: "nat \<Rightarrow> js_string" where
  \<comment> \<open>a natural number in a template literal\<close>
  "decimal n =
     (if n < 10 then [of_nat (0x30 + n)]
      else decimal (n div 10) @ [of_nat (0x30 + n mod 10)])"
  by pat_completeness auto
termination
  by (relation "measure id") auto

definition filename :: "env \<Rightarrow> incoming_file \<Rightarrow> js_string" where
  "filename env f = decimal (Date_now env) @ js_str ''-'' @ originalname f"

definition upload_single :: "env \<Rightarrow> upload_request \<Rightarrow> world \<Rightarrow> (js_error + request) \<times> world" where
  \<comment> \<open>Modelled from the spec: the middleware itself is the upload library's, not under
      src/.  Sections 4.1 and 8 of the specification: a single file under the fixed field
      name; a file whose declared MIME type the filter refuses, or that exceeds the size
      ceiling, is rejected before anything is persisted and before any downstream
      component runs; an accepted file is written under destination/filename.\<close>
  "upload_single env r w =
     (case part r of
        None \<Rightarrow> (Inr \<lparr>req_file = None, req_body = text_fields r\<rparr>, w)
      | Some f \<Rightarrow>
          if fieldname f \<noteq> js_str ''resume''
          then (Inl (new_Error env ''Unexpected field''), w)
          else
            (case fileFilter env f of
               Inl e \<Rightarrow> (Inl e, w)
             | Inr False \<Rightarrow> (Inr \<lparr>req_file = None, req_body = text_fields r\<rparr>, w)
             | Inr True \<Rightarrow>
                 if fileSize < size_bytes f
                 then (Inl (new_Error env ''File too large''), w)
                 else
                   (case destination (files w) of
                      (dir, fsys) \<Rightarrow>
                        (let p = dir @ js_str ''/'' @ filename env f
                         in (Inr \<lparr>req_file = Some (incoming_file.extend f (uploaded_file.fields p)),
                                   req_body = text_fields r\<rparr>,
                             w\<lparr>files := (p, RegularFile) # fsys\<rparr>)))))"

definition route :: "env \<Rightarrow> (env \<Rightarrow> request \<Rightarrow> world \<Rightarrow> (js_error + unit) \<times> world)
                      \<Rightarrow> upload_request \<Rightarrow> world \<Rightarrow> (js_error + unit) \<times> world" where
  \<comment> \<open>\<^verbatim>\<open>app.post(path, upload.single("resume"), handler)\<close>: an error of the middleware goes
      to the framework and the handler does not run\<close>
  "route env handler r w =
     (case upload_single env r w of
        (Inl e, w1) \<Rightarrow> (Inl e, w1)
      | (Inr req, w1) \<Rightarrow> handler env req w1)"

definition responses :: "world \<Rightarrow> response list" where
  \<comment> \<open>the responses sent so far\<close>
  "responses w = concat (map (\<lambda>e. case e of Respond r \<Rightarrow> [r] | _ \<Rightarrow> []) (trace w))"

fun is_generate :: "event \<Rightarrow> bool" where
  "is_generate (GenerateCall p) = True"
| "is_generate _ = False"


section \<open>Notions used to state the properties\<close>

fun field :: "json \<Rightarrow> string \<Rightarrow> json option" where
  \<comment> \<open>the own property of a value under a name, \<open>None\<close> when there is none\<close>
  "field (JObj kvs) name = map_of kvs (js_str name)"
| "field v name = None"

definition first_digit_run :: "js_string \<Rightarrow> js_string \<Rightarrow> bool" where
  \<comment> \<open>\<open>ds\<close> is the first maximal run of decimal digits of \<open>t\<close>\<close>
  "first_digit_run t ds =
     (\<exists>pre post. t = pre @ ds @ post \<and> (\<forall>c \<in> set pre. \<not> is_digit c)
        \<and> ds \<noteq> [] \<and> (\<forall>c \<in> set ds. is_digit c)
        \<and> (post = [] \<or> \<not> is_digit (hd post)))"

fun collapse_crlf :: "bool \<Rightarrow> js_string \<Rightarrow> js_string" where
  \<comment> \<open>every run of carriage returns and newlines becomes one newline: a code unit of
      the class is dropped when the one before it is of the class (the flag), and becomes
      a newline otherwise\<close>
  "collapse_crlf prev [] = []"
| "collapse_crlf prev (c # cs) =
     (if is_crlf c then (if prev then [] else [0x0A]) @ collapse_crlf True cs
      else c # collapse_crlf False cs)"

definition fixed_env :: "(js_error + json) \<Rightarrow> (js_error + js_string option)
                          \<Rightarrow> (js_error + js_string) \<Rightarrow> js_string option \<Rightarrow> env" where
  \<comment> \<open>an environment whose collaborators give the same answer to every call\<close>
  "fixed_env parsed extracted generated mode =
     \<lparr>JSON_parse = (\<lambda>t. parsed),
      pdf_parse = (\<lambda>fsys p. extracted),
      generateContent = (\<lambda>prompt. generated),
      NODE_ENV = mode,
      stack_trace = (\<lambda>msg. js_str ''Error: '' @ msg),
      ToString = (\<lambda>v. Inr (js_str ''[object Object]'')),
      Date_now = 1730000000000\<rparr>"

definition empty_world :: world where
  "empty_world = \<lparr>files = [], trace = []\<rparr>"


section \<open>Auxiliary facts\<close>

lemma get_prop_field: "v \<noteq> JNull \<Longrightarrow> get_prop env v name = Inr (field v name)"
  by (cases v) simp_all

lemma destructure_field: "v \<noteq> JNull \<Longrightarrow> destructure env v name = Inr (field v name)"
  by (cases v) simp_all

lemma field_Some_not_null: "field v name = Some x \<Longrightarrow> v \<noteq> JNull"
  by (cases v) simp_all

lemma ats_strict_ok:
  assumes "JSON_parse env t = Inr parsed"
    and "field parsed ''score'' = Some sc" and "truthy sc"
    and "field parsed ''suggestions'' = Some (JArr sg)"
  shows "ats_strict env t w =
     (Inr (), emit (Respond \<lparr>status = 200, body = JObj
        [(js_str ''score'', sc),
         (js_str ''findings'', case field parsed ''findings'' of None \<Rightarrow> JArr [] | Some f \<Rightarrow> if truthy f then f else JArr []),
         (js_str ''suggestions'', JArr sg)]\<rparr>) w)"
proof -
  have nn: "parsed \<noteq> JNull" using assms(2) by (rule field_Some_not_null)
  show ?thesis
    using assms
    by (simp add: ats_strict_def get_prop_field [OF nn] res_json_def js_object_def split: option.splits)
qed

lemma isArray_iff: "isArray x \<longleftrightarrow> (\<exists>xs. x = Some (JArr xs))"
  by (cases x rule: isArray.cases) simp_all

lemma ats_strict_parse_error: "JSON_parse env t = Inl e \<Longrightarrow> ats_strict env t w = (Inl e, w)"
  by (simp add: ats_strict_def)

lemma ats_strict_invalid:
  assumes "JSON_parse env t = Inr p"
    and "\<not> truthy_opt (field p ''score'') \<or> \<not> isArray (field p ''suggestions'')"
  shows "\<exists>err. ats_strict env t w = (Inl err, w)"
proof (cases "p = JNull")
  case True
  with assms(1) show ?thesis by (simp add: ats_strict_def)
next
  case False
  with assms show ?thesis
    by (auto simp: ats_strict_def get_prop_field)
qed

lemma match_digits_None: "match_digits t = None \<longleftrightarrow> (\<forall>c \<in> set t. \<not> is_digit c)"
  by (auto simp: match_digits_def Let_def dropWhile_eq_Nil_conv)

lemma match_digits_Some: "match_digits t = Some ds \<longleftrightarrow> first_digit_run t ds"
proof
  assume m: "match_digits t = Some ds"
  define pre where "pre = takeWhile (\<lambda>c. \<not> is_digit c) t"
  define r where "r = dropWhile (\<lambda>c. \<not> is_digit c) t"
  define post where "post = dropWhile is_digit r"
  from m have r: "r \<noteq> []" and ds: "ds = takeWhile is_digit r"
    by (auto simp: match_digits_def Let_def r_def split: if_splits)
  have "t = pre @ r" by (simp add: pre_def r_def)
  moreover have "r = ds @ post" by (simp add: ds post_def)
  moreover have "\<forall>c \<in> set pre. \<not> is_digit c"
    by (auto simp: pre_def dest: set_takeWhileD)
  moreover have "is_digit (hd r)" using r hd_dropWhile [of "\<lambda>c. \<not> is_digit c" t] by (simp add: r_def)
  then have "ds \<noteq> []" using r by (cases r) (auto simp: ds)
  moreover have "\<forall>c \<in> set ds. is_digit c" by (auto simp: ds dest: set_takeWhileD)
  moreover have "post = [] \<or> \<not> is_digit (hd post)"
    using hd_dropWhile [of is_digit r] by (auto simp: post_def)
  ultimately show "first_digit_run t ds" unfolding first_digit_run_def by blast
next
  assume "first_digit_run t ds"
  then obtain pre post where t: "t = pre @ ds @ post" and pre: "\<forall>c \<in> set pre. \<not> is_digit c"
    and ne: "ds \<noteq> []" and ds: "\<forall>c \<in> set ds. is_digit c"
    and post: "post = [] \<or> \<not> is_digit (hd post)"
    unfolding first_digit_run_def by blast
  from ne ds have hd: "is_digit (hd ds)" by (cases ds) auto
  have d: "dropWhile (\<lambda>c. \<not> is_digit c) t = ds @ post"
    using pre ne hd unfolding t by (cases ds) (simp_all add: dropWhile_append)
  have "takeWhile is_digit (ds @ post) = ds"
    using ds post by (cases post) (simp_all add: takeWhile_append)
  with d ne show "match_digits t = Some ds" by (simp add: match_digits_def Let_def)
qed

lemma digit_facts:
  assumes "is_digit c"
  shows "\<not> is_js_whitespace c" "c \<noteq> 0x2D" "c \<noteq> 0x2B" "c \<noteq> 0x78" "c \<noteq> 0x58" "digit_value c < 10"
  using assms
  by (auto simp: is_digit_def is_js_whitespace_def digit_value_def word_le_nat_alt)

lemma parseInt_digits:
  assumes "ds \<noteq> []" and "\<forall>c \<in> set ds. is_digit c"
  shows "parseInt ds = to_Number (radix_value 10 ds)"
proof -
  from assms have hd: "is_digit (hd ds)" by (cases ds) auto
  have a: "dropWhile is_js_whitespace ds = ds"
    using assms(1) hd by (cases ds) (auto simp: digit_facts)
  have b: "hd ds \<noteq> 0x2D" "hd ds \<noteq> 0x2B"
    using hd digit_facts by blast+
  have tw: "takeWhile (\<lambda>c. digit_value c < 10) ds = ds"
    using assms(2) by (simp add: takeWhile_eq_all_conv digit_facts)
  have nohex: "(2 \<le> length ds \<and> hd ds = 0x30 \<and> (ds ! 1 = 0x78 \<or> ds ! 1 = 0x58)) = False"
  proof -
    have False if h: "2 \<le> length ds \<and> hd ds = 0x30 \<and> (ds ! 1 = 0x78 \<or> ds ! 1 = 0x58)"
    proof -
      from h have "ds ! 1 \<in> set ds" by (intro nth_mem) simp
      with assms(2) have "is_digit (ds ! 1)" by blast
      with h show False using digit_facts(4,5) by blast
    qed
    then show ?thesis by blast
  qed
  show ?thesis
    unfolding parseInt_def Let_def a
    by (simp only: b nohex tw assms(1) simp_thms if_False if_True)
qed

lemma responses_emit [simp]:
  "responses (emit (Respond r) w) = responses w @ [r]"
  "responses (emit (ConsoleError l e) w) = responses w"
  "responses (emit (GenerateCall p) w) = responses w"
  "responses (emit (ExtractCall p) w) = responses w"
  "responses (emit (UnlinkCall p) w) = responses w"
  by (simp_all add: responses_def emit_def)

lemma uchar_of_char_inj: "(of_nat (of_char a) :: uchar) = of_nat (of_char b) \<longleftrightarrow> a = b"
proof
  assume e: "(of_nat (of_char a) :: uchar) = of_nat (of_char b)"
  have lt: "(of_char c :: nat) < 2 ^ 16" for c
  proof -
    have "(of_char c :: nat) mod 256 < 256" by simp
    then have "(of_char c :: nat) < 256" by (simp only: of_char_mod_256)
    then show ?thesis by (rule less_trans) simp
  qed
  note a = lt [of a] and b = lt [of b]
  from e have "take_bit 16 (of_char a :: nat) = take_bit 16 (of_char b :: nat)"
    by (simp add: word_of_nat_eq_iff)
  with a b have "(of_char a :: nat) = of_char b" by (simp add: take_bit_nat_eq_self)
  then show "a = b" by simp
qed simp

lemma js_str_eq_iff [simp]: "js_str a = js_str b \<longleftrightarrow> a = b"
proof -
  have "inj (\<lambda>c. of_nat (of_char c) :: uchar)"
    by (rule injI) (simp add: uchar_of_char_inj)
  then show ?thesis by (simp add: js_str_def inj_map_eq_map)
qed

lemma js_str_Nil [simp]: "js_str s = [] \<longleftrightarrow> s = []" "[] = js_str s \<longleftrightarrow> s = []"
  by (auto simp: js_str_def)

text \<open>
  \<open>parseInt\<close> is exact on a run whose value is below \<open>2 ^ 53\<close>, and \<open>trim\<close> removes white
  space at both ends and nothing else.
\<close>

lemma to_Number_exact: "n < 2 ^ 53 \<Longrightarrow> to_Number n = Fin (of_nat n)"
  by (simp add: to_Number_def)

lemma trim_spec:
  "\<exists>pre post. s = pre @ trim s @ post
     \<and> (\<forall>c \<in> set pre. is_js_whitespace c) \<and> (\<forall>c \<in> set post. is_js_whitespace c)
     \<and> (trim s = [] \<or> (\<not> is_js_whitespace (hd (trim s)) \<and> \<not> is_js_whitespace (last (trim s))))"
proof -
  define pre where "pre = takeWhile is_js_whitespace s"
  define m where "m = dropWhile is_js_whitespace s"
  define post where "post = rev (takeWhile is_js_whitespace (rev m))"
  have t: "trim s = rev (dropWhile is_js_whitespace (rev m))" by (simp add: trim_def m_def)
  have "trim s @ post
      = rev (takeWhile is_js_whitespace (rev m) @ dropWhile is_js_whitespace (rev m))"
    by (simp only: t post_def rev_append)
  then have m: "m = trim s @ post" by (simp only: takeWhile_dropWhile_id rev_rev_ident)
  have "s = pre @ m" by (simp add: pre_def m_def)
  with m have s: "s = pre @ trim s @ post" by simp
  have a: "\<forall>c \<in> set pre. is_js_whitespace c" by (auto simp: pre_def dest: set_takeWhileD)
  have b: "\<forall>c \<in> set post. is_js_whitespace c" by (auto simp: post_def dest: set_takeWhileD)
  have c: "\<not> is_js_whitespace (hd (trim s)) \<and> \<not> is_js_whitespace (last (trim s))" if ne: "trim s \<noteq> []"
  proof
    from ne m have "m \<noteq> []" by auto
    then have "\<not> is_js_whitespace (hd m)" unfolding m_def by (rule hd_dropWhile)
    with ne m show "\<not> is_js_whitespace (hd (trim s))" by (metis hd_append2)
    from ne have d: "dropWhile is_js_whitespace (rev m) \<noteq> []" by (simp add: t)
    then have "\<not> is_js_whitespace (hd (dropWhile is_js_whitespace (rev m)))" by (rule hd_dropWhile)
    with d show "\<not> is_js_whitespace (last (trim s))" by (simp add: t last_rev)
  qed
  from s a b c show ?thesis by blast
qed

section \<open>The ATS normalizer\<close>

text \<open>
  Claim C1, as amended.  When the generation result parses and the parsed value has a
  truthy \<open>score\<close> and an array \<open>suggestions\<close>, the normalizer sends exactly one response,
  with status 200 and the body \<open>{score, findings, suggestions}\<close> built from the parsed
  fields, and nothing is logged.  \<open>findings\<close> is the parsed value when that is truthy and
  the empty array otherwise: the source writes \<^verbatim>\<open>parsedResponse.findings || []\<close>, so the
  empty array stands in not only for an absent \<open>findings\<close> but also for a present one
  that is \<^verbatim>\<open>null\<close>, \<^verbatim>\<open>false\<close>, \<^verbatim>\<open>0\<close> or the empty string.
\<close>

theorem ats_strict_parse_mirrors_fields:
  assumes "JSON_parse env t = Inr parsed"
    and "field parsed ''score'' = Some sc" and "truthy sc"
    and "field parsed ''suggestions'' = Some (JArr sg)"
  shows "ats_normalize env t w =
     (Inr (), emit (Respond \<lparr>status = 200, body = JObj
        [(js_str ''score'', sc),
         (js_str ''findings'',
            case field parsed ''findings'' of
              None \<Rightarrow> JArr []
            | Some f \<Rightarrow> if truthy f then f else JArr []),
         (js_str ''suggestions'', JArr sg)]\<rparr>) w)"
  by (simp add: ats_normalize_def ats_strict_ok [OF assms])

text \<open>
  The scenario of the specification: the collaborator answers
  \<^verbatim>\<open>{"score":82,"findings":["Good keyword density"],"suggestions":["Add metrics"]}\<close>
  and the response carries the same three fields.
\<close>

theorem ats_strict_parse_mirrors_fields_witness:
  \<open>ats_normalize
      (fixed_env
        (Inr (JObj [(js_str ''score'', JNum (Fin 82)),
              (js_str ''findings'', JArr [JStr (js_str ''Good keyword density'')]),
              (js_str ''suggestions'', JArr [JStr (js_str ''Add metrics'')])]))
        (Inr None) (Inr []) None)
      (js_str ''{"score":82,"findings":["Good keyword density"],"suggestions":["Add metrics"]}'')
      empty_world =
    (Inr (),
     \<lparr>files = [],
      trace = [Respond \<lparr>status = 200, body =
        JObj [(js_str ''score'', JNum (Fin 82)),
              (js_str ''findings'', JArr [JStr (js_str ''Good keyword density'')]),
              (js_str ''suggestions'', JArr [JStr (js_str ''Add metrics'')])]\<rparr>]\<rparr>)\<close>
proof -
  let ?P = "JObj [(js_str ''score'', JNum (Fin 82)),
              (js_str ''findings'', JArr [JStr (js_str ''Good keyword density'')]),
              (js_str ''suggestions'', JArr [JStr (js_str ''Add metrics'')])]"
  let ?E = "fixed_env (Inr ?P) (Inr None) (Inr []) None"
  have h1: "JSON_parse ?E t = Inr ?P" for t by (simp add: fixed_env_def)
  have h2: "field ?P ''score'' = Some (JNum (Fin 82))" by simp
  have h3: "truthy (JNum (Fin 82))" by simp
  have h4: "field ?P ''suggestions'' = Some (JArr [JStr (js_str ''Add metrics'')])" by simp
  have h5: "field ?P ''findings'' = Some (JArr [JStr (js_str ''Good keyword density'')])" by simp
  show ?thesis
    using ats_strict_parse_mirrors_fields [OF h1 h2 h3 h4, of _ empty_world]
    by (simp add: h5 emit_def empty_world_def)
qed

text \<open>
  Claim C1 as it is written fails.  The collaborator answers
  \<^verbatim>\<open>{"score":82,"findings":"","suggestions":[]}\<close>: \<open>findings\<close> is present, it is the
  empty string, and the response carries the empty array in its place.
\<close>

theorem ats_strict_findings_counterexample:
  \<open>field (JObj [(js_str ''score'', JNum (Fin 82)),
                (js_str ''findings'', JStr []),
                (js_str ''suggestions'', JArr [])]) ''findings'' = Some (JStr [])
    \<and> map (\<lambda>r. field (body r) ''findings'')
        (responses (snd (ats_normalize
          (fixed_env
            (Inr (JObj [(js_str ''score'', JNum (Fin 82)),
                        (js_str ''findings'', JStr []),
                        (js_str ''suggestions'', JArr [])]))
            (Inr None) (Inr []) None)
          (js_str ''{"score":82,"findings":"","suggestions":[]}'')
          empty_world))) = [Some (JArr [])]\<close>
  by (simp add: ats_normalize_def ats_strict_def fixed_env_def js_object_def res_json_def
      emit_def empty_world_def responses_def js_str_def)

text \<open>
  Claim C2.  When the generation result does not parse, or the parsed value lacks a truthy
  \<open>score\<close> or an array \<open>suggestions\<close> (a parsed \<^verbatim>\<open>null\<close> included: reading its property
  throws inside the inner \<^verbatim>\<open>try\<close>), the normalizer ends normally, logs the exception and
  sends one response with status 200 whose \<open>findings\<close> and \<open>suggestions\<close> are the two
  fixed one-element arrays.  Its \<open>score\<close> is the Number \<^verbatim>\<open>parseInt\<close> reads from the first
  maximal run of decimal digits of the raw text, that is the run's decimal value as a
  Number, and 70 when the text has no digit.
\<close>

theorem ats_fallback_response:
  assumes "JSON_parse env t = Inl e \<or>
     (\<exists>p. JSON_parse env t = Inr p
        \<and> (\<not> truthy_opt (field p ''score'') \<or> \<not> isArray (field p ''suggestions'')))"
  shows "\<exists>err score.
     ats_normalize env t w =
       (Inr (),
        emit (Respond \<lparr>status = 200, body = JObj
               [(js_str ''score'', JNum score),
                (js_str ''findings'', JArr [JStr (js_str ''Analysis completed'')]),
                (js_str ''suggestions'',
                   JArr [JStr (js_str ''Consider reviewing the resume format'')])]\<rparr>)
          (emit (ConsoleError ''Parse error:'' err) w))
     \<and> (if \<exists>c \<in> set t. is_digit c
         then \<exists>ds. first_digit_run t ds \<and> score = to_Number (radix_value 10 ds)
         else score = Fin 70)"
proof -
  from assms obtain err where err: "ats_strict env t w = (Inl err, w)"
    using ats_strict_parse_error ats_strict_invalid by blast
  define score where "score = (case match_digits t of Some m \<Rightarrow> parseInt m | None \<Rightarrow> Fin 70)"
  have res: "ats_normalize env t w =
       (Inr (),
        emit (Respond \<lparr>status = 200, body = JObj
               [(js_str ''score'', JNum score),
                (js_str ''findings'', JArr [JStr (js_str ''Analysis completed'')]),
                (js_str ''suggestions'',
                   JArr [JStr (js_str ''Consider reviewing the resume format'')])]\<rparr>)
          (emit (ConsoleError ''Parse error:'' err) w))"
    by (simp add: ats_normalize_def err ats_fallback_def res_json_def js_object_def score_def)
  have sc: "if \<exists>c \<in> set t. is_digit c
         then \<exists>ds. first_digit_run t ds \<and> score = to_Number (radix_value 10 ds)
         else score = Fin 70"
  proof (cases "match_digits t")
    case None
    then have "\<forall>c \<in> set t. \<not> is_digit c" by (simp add: match_digits_None)
    with None show ?thesis by (simp add: score_def)
  next
    case (Some ds)
    then have run: "first_digit_run t ds" by (simp add: match_digits_Some)
    then have "ds \<noteq> []" and "\<forall>c \<in> set ds. is_digit c"
      by (auto simp: first_digit_run_def)
    then have "parseInt ds = to_Number (radix_value 10 ds)" by (rule parseInt_digits)
    moreover from Some have "\<exists>c \<in> set t. is_digit c"
      using match_digits_None [of t] by auto
    ultimately show ?thesis using run Some by (auto simp: score_def)
  qed
  from res sc show ?thesis by blast
qed

text \<open>
  The scenario of the specification: the collaborator answers
  \<^verbatim>\<open>Your resume scores around 75 out of 100.\<close>, which is not JSON, and the score is 75.
\<close>

theorem ats_fallback_response_witness:
  \<open>JSON_parse (fixed_env (Inl \<lparr>message = js_str ''Unexpected token Y in JSON at position 0'',
                                 stack = js_str ''SyntaxError''\<rparr>) (Inr None) (Inr []) None)
       (js_str ''Your resume scores around 75 out of 100.'')
     = Inl \<lparr>message = js_str ''Unexpected token Y in JSON at position 0'',
            stack = js_str ''SyntaxError''\<rparr>
    \<and> responses (snd (ats_normalize
          (fixed_env (Inl \<lparr>message = js_str ''Unexpected token Y in JSON at position 0'',
                           stack = js_str ''SyntaxError''\<rparr>) (Inr None) (Inr []) None)
          (js_str ''Your resume scores around 75 out of 100.'') empty_world))
      = [\<lparr>status = 200, body = JObj
           [(js_str ''score'', JNum (Fin 75)),
            (js_str ''findings'', JArr [JStr (js_str ''Analysis completed'')]),
            (js_str ''suggestions'',
               JArr [JStr (js_str ''Consider reviewing the resume format'')])]\<rparr>]\<close>
proof -
  let ?e = "\<lparr>message = js_str ''Unexpected token Y in JSON at position 0'',
            stack = js_str ''SyntaxError''\<rparr>"
  let ?E = "fixed_env (Inl ?e) (Inr None) (Inr []) None"
  let ?T = "js_str ''Your resume scores around 75 out of 100.''"
  have h: "JSON_parse ?E ?T = Inl ?e" by (simp add: fixed_env_def)
  have m: "match_digits ?T = Some (js_str ''75'')"
    by (simp add: match_digits_def js_str_def is_digit_def)
  have v: "to_Number (radix_value 10 (js_str ''75'')) = Fin 75"
    by (simp add: to_Number_def radix_value_def js_str_def digit_value_def)
  have d: "\<exists>c \<in> set ?T. is_digit c"
    using m match_digits_None [of ?T] by auto
  have e: "responses empty_world = []" by (simp add: responses_def empty_world_def)
  from ats_fallback_response [OF disjI1 [OF h], of empty_world]
  obtain err score where
    r: "ats_normalize ?E ?T empty_world =
       (Inr (),
        emit (Respond \<lparr>status = 200, body = JObj
               [(js_str ''score'', JNum score),
                (js_str ''findings'', JArr [JStr (js_str ''Analysis completed'')]),
                (js_str ''suggestions'',
                   JArr [JStr (js_str ''Consider reviewing the resume format'')])]\<rparr>)
          (emit (ConsoleError ''Parse error:'' err) empty_world))"
    and s: "if \<exists>c \<in> set ?T. is_digit c
         then \<exists>ds. first_digit_run ?T ds \<and> score = to_Number (radix_value 10 ds)
         else score = Fin 70"
    by blast
  from s d obtain ds where "first_digit_run ?T ds" and sc: "score = to_Number (radix_value 10 ds)"
    by auto
  then have "match_digits ?T = Some ds" by (simp add: match_digits_Some)
  with m have "ds = js_str ''75''" by simp
  with sc v have "score = Fin 75" by simp
  with r e h show ?thesis by simp
qed

text \<open>
  Claim C9.  In the strict branch the parsed \<open>score\<close> is sent as it is whenever it is
  truthy, whatever its type and size: the only checks are the truthiness of \<open>score\<close> and
  \<open>suggestions\<close> being an array.
\<close>

theorem ats_score_returned_unchecked:
  assumes "JSON_parse env t = Inr parsed"
    and "field parsed ''score'' = Some sc" and "truthy sc"
    and "field parsed ''suggestions'' = Some (JArr sg)"
  shows "\<exists>r. responses (snd (ats_normalize env t w)) = responses w @ [r]
           \<and> status r = 200 \<and> field (body r) ''score'' = Some sc"
  by (simp add: ats_normalize_def ats_strict_ok [OF assms])

text \<open>Two instances: the string \<^verbatim>\<open>"high"\<close> and the number 150 are sent as the score.\<close>

theorem ats_score_returned_unchecked_witness:
  \<open>(\<exists>r. responses (snd (ats_normalize
            (fixed_env (Inr (JObj [(js_str ''score'', JStr (js_str ''high'')),
                                   (js_str ''suggestions'', JArr [])]))
               (Inr None) (Inr []) None)
            (js_str ''{"score":"high","suggestions":[]}'') empty_world)) = [r]
        \<and> status r = 200 \<and> field (body r) ''score'' = Some (JStr (js_str ''high'')))
    \<and> (\<exists>r. responses (snd (ats_normalize
            (fixed_env (Inr (JObj [(js_str ''score'', JNum (Fin 150)),
                                   (js_str ''suggestions'', JArr [])]))
               (Inr None) (Inr []) None)
            (js_str ''{"score":150,"suggestions":[]}'') empty_world)) = [r]
        \<and> status r = 200 \<and> field (body r) ''score'' = Some (JNum (Fin 150)))\<close>
proof -
  let ?P = "JObj [(js_str ''score'', JStr (js_str ''high'')), (js_str ''suggestions'', JArr [])]"
  let ?Q = "JObj [(js_str ''score'', JNum (Fin 150)), (js_str ''suggestions'', JArr [])]"
  have e: "responses empty_world = []" by (simp add: responses_def empty_world_def)
  have p1: "JSON_parse (fixed_env (Inr ?P) (Inr None) (Inr []) None) t = Inr ?P" for t
    by (simp add: fixed_env_def)
  have p2: "field ?P ''score'' = Some (JStr (js_str ''high''))" by simp
  have p3: "truthy (JStr (js_str ''high''))" by simp
  have p4: "field ?P ''suggestions'' = Some (JArr [])" by simp
  have q1: "JSON_parse (fixed_env (Inr ?Q) (Inr None) (Inr []) None) t = Inr ?Q" for t
    by (simp add: fixed_env_def)
  have q2: "field ?Q ''score'' = Some (JNum (Fin 150))" by simp
  have q3: "truthy (JNum (Fin 150))" by simp
  have q4: "field ?Q ''suggestions'' = Some (JArr [])" by simp
  show ?thesis
    using ats_score_returned_unchecked [OF p1 p2 p3 p4, of _ empty_world]
      ats_score_returned_unchecked [OF q1 q2 q3 q4, of _ empty_world]
    by (simp only: e append_Nil simp_thms)
qed

section \<open>The cover-letter normalizer\<close>

text \<open>
  The replacement of \<^verbatim>\<open>/[\r\n]+/g\<close> by a newline, as the source computes it run by run,
  is the collapse of every run of carriage returns and newlines into one newline.
\<close>

lemma collapse_crlf_True: "collapse_crlf True cs = collapse_crlf False (dropWhile is_crlf cs)"
  by (induction cs) simp_all

lemma replace_crlf_collapse: "replace_crlf t = collapse_crlf False t"
  by (induction t rule: replace_crlf.induct) (simp_all add: collapse_crlf_True)

lemma cover_strict_fails:
  assumes "JSON_parse env t = Inl e \<or>
     (\<exists>p. JSON_parse env t = Inr p \<and> \<not> truthy_opt (field p ''coverLetter''))"
  shows "\<exists>err. cover_strict env t = Inl err"
proof -
  from assms consider "JSON_parse env t = Inl e"
    | p where "JSON_parse env t = Inr p" "\<not> truthy_opt (field p ''coverLetter'')"
    by blast
  then show ?thesis
  proof cases
    case 1
    then show ?thesis by (simp add: cover_strict_def)
  next
    case 2
    then show ?thesis
      by (cases "p = JNull") (simp_all add: cover_strict_def get_prop_field)
  qed
qed

text \<open>
  Claim C3, as amended.  When the generation result does not parse, or the parsed value
  has no truthy \<open>coverLetter\<close>, both cover-letter routes log the exception and answer with
  status 200.  The \<open>coverLetter\<close> sent is the raw text with every run of carriage returns
  and newlines collapsed into one newline and then trimmed: the source calls
  \<^verbatim>\<open>.trim()\<close> on the result, so leading and trailing white space is removed and the text
  is not used verbatim.  \<open>highlights\<close> and \<open>suggestedImprovements\<close> are fixed one-element
  arrays; the text route wraps the object in \<open>{success: true, data}\<close> and has its own
  highlight.
\<close>

theorem cover_letter_fallback:
  assumes "JSON_parse env t = Inl e \<or>
     (\<exists>p. JSON_parse env t = Inr p \<and> \<not> truthy_opt (field p ''coverLetter''))"
  shows "\<exists>err.
     cover_normalize env t w =
       (Inr (),
        emit (Respond \<lparr>status = 200, body = JObj
               [(js_str ''coverLetter'', JStr (trim (collapse_crlf False t))),
                (js_str ''highlights'',
                   JArr [JStr (js_str ''Letter generated based on your resume and job description'')]),
                (js_str ''suggestedImprovements'',
                   JArr [JStr (js_str ''Consider reviewing and personalizing the generated content'')])]\<rparr>)
          (emit (ConsoleError ''Parse error:'' err) w))
     \<and> text_normalize env t w =
       (Inr (),
        emit (Respond \<lparr>status = 200, body = JObj
               [(js_str ''success'', JBool True),
                (js_str ''data'', JObj
                  [(js_str ''coverLetter'', JStr (trim (collapse_crlf False t))),
                   (js_str ''highlights'',
                      JArr [JStr (js_str ''Letter generated based on your background and job description'')]),
                   (js_str ''suggestedImprovements'',
                      JArr [JStr (js_str ''Consider reviewing and personalizing the generated content'')])])]\<rparr>)
          (emit (ConsoleError ''Parse error:'' err) w))"
proof -
  from cover_strict_fails [OF assms] obtain err where "cover_strict env t = Inl err" ..
  then show ?thesis
    by (intro exI [of _ err])
       (simp add: cover_normalize_def text_normalize_def cover_fallback_data_def
          res_json_def js_object_def replace_crlf_collapse)
qed

text \<open>
  A generation result that is no JSON: two lines separated by two CR LF pairs and ended
  by a newline.  The letter sent has one newline between the lines and none at the end.
\<close>

theorem cover_letter_fallback_witness:
  \<open>JSON_parse (fixed_env (Inl \<lparr>message = js_str ''Unexpected token D in JSON at position 0'',
                                 stack = js_str ''SyntaxError''\<rparr>) (Inr None) (Inr []) None)
       (js_str ''Dear team,'' @ [0x0D, 0x0A, 0x0D, 0x0A] @ js_str ''Thanks.'' @ [0x0A])
     = Inl \<lparr>message = js_str ''Unexpected token D in JSON at position 0'',
            stack = js_str ''SyntaxError''\<rparr>
    \<and> responses (snd (cover_normalize
          (fixed_env (Inl \<lparr>message = js_str ''Unexpected token D in JSON at position 0'',
                           stack = js_str ''SyntaxError''\<rparr>) (Inr None) (Inr []) None)
          (js_str ''Dear team,'' @ [0x0D, 0x0A, 0x0D, 0x0A] @ js_str ''Thanks.'' @ [0x0A])
          empty_world))
      = [\<lparr>status = 200, body = JObj
           [(js_str ''coverLetter'', JStr (js_str ''Dear team,'' @ [0x0A] @ js_str ''Thanks.'')),
            (js_str ''highlights'',
               JArr [JStr (js_str ''Letter generated based on your resume and job description'')]),
            (js_str ''suggestedImprovements'',
               JArr [JStr (js_str ''Consider reviewing and personalizing the generated content'')])]\<rparr>]\<close>
proof -
  let ?e = "\<lparr>message = js_str ''Unexpected token D in JSON at position 0'',
            stack = js_str ''SyntaxError''\<rparr>"
  let ?E = "fixed_env (Inl ?e) (Inr None) (Inr []) None"
  let ?T = "js_str ''Dear team,'' @ [0x0D, 0x0A, 0x0D, 0x0A] @ js_str ''Thanks.'' @ [0x0A]"
  have h: "JSON_parse ?E ?T = Inl ?e" by (simp add: fixed_env_def)
  have v: "trim (collapse_crlf False ?T) = js_str ''Dear team,'' @ [0x0A] @ js_str ''Thanks.''"
    by (simp add: js_str_def trim_def is_crlf_def is_js_whitespace_def)
  have e: "responses empty_world = []" by (simp add: responses_def empty_world_def)
  from cover_letter_fallback [OF disjI1 [OF h], of empty_world]
  show ?thesis unfolding v using h by (auto simp: e)
qed

text \<open>
  Claim C3 as it is written fails on the same text: collapsing the runs leaves the final
  newline in place, and the letter sent does not have it.
\<close>

theorem cover_letter_verbatim_counterexample:
  \<open>collapse_crlf False (js_str ''Dear team,'' @ [0x0D, 0x0A, 0x0D, 0x0A] @ js_str ''Thanks.'' @ [0x0A])
      = js_str ''Dear team,'' @ [0x0A] @ js_str ''Thanks.'' @ [0x0A]
    \<and> map (\<lambda>r. field (body r) ''coverLetter'')
        (responses (snd (cover_normalize
          (fixed_env (Inl \<lparr>message = js_str ''Unexpected token D in JSON at position 0'',
                           stack = js_str ''SyntaxError''\<rparr>) (Inr None) (Inr []) None)
          (js_str ''Dear team,'' @ [0x0D, 0x0A, 0x0D, 0x0A] @ js_str ''Thanks.'' @ [0x0A])
          empty_world)))
      = [Some (JStr (js_str ''Dear team,'' @ [0x0A] @ js_str ''Thanks.''))]\<close>
  by (simp add: cover_normalize_def cover_strict_def cover_fallback_data_def fixed_env_def
      js_object_def res_json_def emit_def empty_world_def responses_def js_str_def
      trim_def is_crlf_def is_js_whitespace_def)

section \<open>Cleanup\<close>

lemma map_of_filter_other: "map_of (filter (\<lambda>kv. fst kv \<noteq> p) xs) p = None"
  by (induction xs) auto

lemma existsSync_after_unlink:
  "unlinkSync env fsys p = Inr fsys' \<Longrightarrow> \<not> existsSync fsys' p"
  by (auto simp: unlinkSync_def existsSync_def map_of_filter_other
      split: option.splits node.splits)

lemma files_emit [simp]: "files (emit e w) = files w"
  by (simp add: emit_def)

lemma trace_emit [simp]: "trace (emit e w) = trace w @ [e]"
  by (simp add: emit_def)

lemma cleanupFile_missing: "\<not> existsSync (files w) p \<Longrightarrow> cleanupFile env p w = (Inr (), w)"
  by (simp add: cleanupFile_def cleanupFile_try_def)

lemma cleanupFile_cases:
  "(\<not> existsSync (files w) p \<and> cleanupFile env p w = (Inr (), w))
   \<or> (\<exists>fsys. existsSync (files w) p \<and> unlinkSync env (files w) p = Inr fsys
         \<and> cleanupFile env p w = (Inr (), (emit (UnlinkCall p) w)\<lparr>files := fsys\<rparr>))
   \<or> (\<exists>e. existsSync (files w) p \<and> unlinkSync env (files w) p = Inl e
         \<and> cleanupFile env p w =
             (Inr (), emit (ConsoleError ''Error cleaning up file:'' e) (emit (UnlinkCall p) w)))"
  by (cases "unlinkSync env (files w) p")
     (simp_all add: cleanupFile_def cleanupFile_try_def)

text \<open>
  Claim C10.  \<open>cleanupFile\<close> never ends with an exception; it leaves the world as it is
  when the path does not exist; an exception of its \<^verbatim>\<open>try\<close> block (the deletion refused)
  is caught and logged; and a second call on the same path leaves the file system as the
  first call left it.
\<close>

theorem cleanupFile_total_idempotent:
  "fst (cleanupFile env p w) = Inr ()
   \<and> (\<not> existsSync (files w) p \<longrightarrow> cleanupFile env p w = (Inr (), w))
   \<and> (\<forall>e w1. cleanupFile_try env p w = (Inl e, w1) \<longrightarrow>
         cleanupFile env p w = (Inr (), emit (ConsoleError ''Error cleaning up file:'' e) w1))
   \<and> files (snd (cleanupFile env p (snd (cleanupFile env p w)))) = files (snd (cleanupFile env p w))"
proof (intro conjI)
  show "fst (cleanupFile env p w) = Inr ()"
    using cleanupFile_cases [of w p env] by auto
  show "\<not> existsSync (files w) p \<longrightarrow> cleanupFile env p w = (Inr (), w)"
    by (simp add: cleanupFile_missing)
  show "\<forall>e w1. cleanupFile_try env p w = (Inl e, w1) \<longrightarrow>
         cleanupFile env p w = (Inr (), emit (ConsoleError ''Error cleaning up file:'' e) w1)"
    by (simp add: cleanupFile_def)
  show "files (snd (cleanupFile env p (snd (cleanupFile env p w)))) = files (snd (cleanupFile env p w))"
  proof -
    consider (missing) "\<not> existsSync (files w) p" "cleanupFile env p w = (Inr (), w)"
      | (removed) fsys where "unlinkSync env (files w) p = Inr fsys"
          "cleanupFile env p w = (Inr (), (emit (UnlinkCall p) w)\<lparr>files := fsys\<rparr>)"
      | (refused) e where "existsSync (files w) p" "unlinkSync env (files w) p = Inl e"
          "cleanupFile env p w =
             (Inr (), emit (ConsoleError ''Error cleaning up file:'' e) (emit (UnlinkCall p) w))"
      using cleanupFile_cases [of w p env] by blast
    then show ?thesis
    proof cases
      case missing
      then show ?thesis by simp
    next
      case removed
      from removed(1) have "\<not> existsSync fsys p" by (rule existsSync_after_unlink)
      then show ?thesis by (simp add: removed(2) cleanupFile_missing)
    next
      case refused
      let ?w = "emit (ConsoleError ''Error cleaning up file:'' e) (emit (UnlinkCall p) w)"
      have "files (snd (cleanupFile env p ?w)) = files w"
        using refused(1,2) by (simp add: cleanupFile_def cleanupFile_try_def)
      then show ?thesis by (simp add: refused(3))
    qed
  qed
qed

text \<open>
  Two instances: a path that does not exist, and a file the system refuses to remove,
  where the refusal is logged and the call ends normally.
\<close>

theorem cleanupFile_total_idempotent_witness:
  \<open>\<not> existsSync (files empty_world) (js_str ''uploads/1-cv.pdf'')
    \<and> cleanupFile (fixed_env (Inr JNull) (Inr None) (Inr []) None) (js_str ''uploads/1-cv.pdf'') empty_world
        = (Inr (), empty_world)
    \<and> cleanupFile_try (fixed_env (Inr JNull) (Inr None) (Inr []) None) (js_str ''uploads/1-cv.pdf'')
         \<lparr>files = [(js_str ''uploads/1-cv.pdf'', Protected)], trace = []\<rparr>
        = (Inl \<lparr>message = js_str ''EPERM: operation not permitted, unlink'',
                stack = js_str ''Error: EPERM: operation not permitted, unlink''\<rparr>,
           \<lparr>files = [(js_str ''uploads/1-cv.pdf'', Protected)],
            trace = [UnlinkCall (js_str ''uploads/1-cv.pdf'')]\<rparr>)
    \<and> cleanupFile (fixed_env (Inr JNull) (Inr None) (Inr []) None) (js_str ''uploads/1-cv.pdf'')
         \<lparr>files = [(js_str ''uploads/1-cv.pdf'', Protected)], trace = []\<rparr>
        = (Inr (),
           \<lparr>files = [(js_str ''uploads/1-cv.pdf'', Protected)],
            trace = [UnlinkCall (js_str ''uploads/1-cv.pdf''),
                     ConsoleError ''Error cleaning up file:''
                       \<lparr>message = js_str ''EPERM: operation not permitted, unlink'',
                        stack = js_str ''Error: EPERM: operation not permitted, unlink''\<rparr>]\<rparr>)\<close>
proof -
  let ?E = "fixed_env (Inr JNull) (Inr None) (Inr []) None"
  let ?p = "js_str ''uploads/1-cv.pdf''"
  let ?w = "\<lparr>files = [(?p, Protected)], trace = []\<rparr>"
  let ?e = "\<lparr>message = js_str ''EPERM: operation not permitted, unlink'',
                stack = js_str ''Error: EPERM: operation not permitted, unlink''\<rparr>"
  have a: "\<not> existsSync (files empty_world) ?p" by (simp add: existsSync_def empty_world_def)
  have b: "cleanupFile_try ?E ?p ?w = (Inl ?e, \<lparr>files = [(?p, Protected)], trace = [UnlinkCall ?p]\<rparr>)"
    by (simp add: cleanupFile_try_def existsSync_def unlinkSync_def emit_def new_Error_def
        fixed_env_def js_str_def)
  from cleanupFile_total_idempotent [of ?E ?p empty_world] a
  have c: "cleanupFile ?E ?p empty_world = (Inr (), empty_world)" by blast
  from cleanupFile_total_idempotent [of ?E ?p ?w] b
  have d: "cleanupFile ?E ?p ?w =
      (Inr (), emit (ConsoleError ''Error cleaning up file:'' ?e)
                 \<lparr>files = [(?p, Protected)], trace = [UnlinkCall ?p]\<rparr>)" by blast
  show ?thesis using a b c d by (simp add: emit_def)
qed

section \<open>The handlers: validation and error paths\<close>

lemma trim_all_whitespace:
  assumes "\<forall>c \<in> set s. is_js_whitespace c"
  shows "trim s = []"
  using assms by (auto simp: trim_def dest: set_dropWhileD)

lemma cleanupFile_ends_normally: "fst (cleanupFile env p w) = Inr ()"
  using cleanupFile_cases [of w p env] by auto

lemma cleanupFile_responses [simp]: "responses (snd (cleanupFile env p w)) = responses w"
  using cleanupFile_cases [of w p env]
  by (auto simp: responses_def)

lemma cleanupFile_generate [simp]:
  "filter is_generate (trace (snd (cleanupFile env p w))) = filter is_generate (trace w)"
  using cleanupFile_cases [of w p env] by auto

lemma finally_cleanup_responses [simp]:
  "responses (snd (finally_cleanup env fp w)) = responses w"
  by (simp add: finally_cleanup_def split: option.splits)

lemma finally_cleanup_generate [simp]:
  "filter is_generate (trace (snd (finally_cleanup env fp w))) = filter is_generate (trace w)"
  by (simp add: finally_cleanup_def split: option.splits)

lemma finally_cleanup_total [simp]: "fst (finally_cleanup env fp w) = Inr ()"
  by (simp add: finally_cleanup_def cleanupFile_ends_normally split: option.splits)

lemma responses_res_json [simp]:
  "responses (res_json code obj w) = responses w @ [\<lparr>status = code, body = obj\<rparr>]"
  by (simp add: res_json_def)

lemma trace_res_json [simp]:
  "trace (res_json code obj w) = trace w @ [Respond \<lparr>status = code, body = obj\<rparr>]"
  by (simp add: res_json_def)

lemma field_error_payload:
  "field (error_payload env d error) ''error'' =
     Some (JStr (if message error \<noteq> [] then message error else js_str d))"
  "field (error_payload env d error) ''details'' =
     (if NODE_ENV env = Some (js_str ''development'') then Some (JStr (stack error)) else None)"
  by (simp_all add: error_payload_def js_object_def)

lemma ats_try_blank:
  assumes "req_file req = Some f"
    and "pdf_parse env (files w) (path f) = Inr text"
    and "case text of None \<Rightarrow> True | Some s \<Rightarrow> \<forall>c \<in> set s. is_js_whitespace c"
  shows "ats_try env req w =
    (Inl (new_Error env ''Could not extract text from PDF''), Some (path f), emit (ExtractCall (path f)) w)"
  using assms
  by (auto simp: ats_try_def extractTextFromPDF_def Let_def trim_all_whitespace split: option.splits)

lemma cover_try_blank:
  assumes "req_file req = Some f"
    and "truthy_opt (field (req_body req) ''jobDescription'')"
    and "pdf_parse env (files w) (path f) = Inr text"
    and "case text of None \<Rightarrow> True | Some s \<Rightarrow> \<forall>c \<in> set s. is_js_whitespace c"
  shows "cover_try env req w =
    (Inl (new_Error env ''Could not extract text from resume PDF''), Some (path f), emit (ExtractCall (path f)) w)"
proof -
  from assms(2) have "req_body req \<noteq> JNull" by (cases "req_body req") auto
  then have "get_prop env (req_body req) ''jobDescription'' = Inr (field (req_body req) ''jobDescription'')"
    by (rule get_prop_field)
  with assms show ?thesis
    by (auto simp: cover_try_def extractTextFromPDF_def Let_def trim_all_whitespace split: option.splits)
qed

text \<open>
  Claim C6.  On an upload route whose extracted text is absent, empty or white space only,
  the handler answers with status 500 and the error message
  \<open>Could not extract text from PDF\<close> (ATS route) or
  \<open>Could not extract text from resume PDF\<close> (cover-letter route, once the job description
  has been found), and the generation client is not called: the trace has gained no
  call of it.
\<close>

theorem blank_pdf_text_rejected:
  assumes "req_file req = Some f"
    and "pdf_parse env (files w) (path f) = Inr text"
    and "case text of None \<Rightarrow> True | Some s \<Rightarrow> \<forall>c \<in> set s. is_js_whitespace c"
  shows "(\<exists>r. responses (snd (ats_check env req w)) = responses w @ [r] \<and> status r = 500
            \<and> field (body r) ''error'' = Some (JStr (js_str ''Could not extract text from PDF'')))
         \<and> filter is_generate (trace (snd (ats_check env req w))) = filter is_generate (trace w)
         \<and> (truthy_opt (field (req_body req) ''jobDescription'') \<longrightarrow>
              (\<exists>r. responses (snd (generate_cover_letter env req w)) = responses w @ [r]
                 \<and> status r = 500
                 \<and> field (body r) ''error'' =
                      Some (JStr (js_str ''Could not extract text from resume PDF'')))
              \<and> filter is_generate (trace (snd (generate_cover_letter env req w)))
                   = filter is_generate (trace w))"
  by (simp add: ats_check_def generate_cover_letter_def ats_try_blank [OF assms]
      cover_try_blank [OF assms(1) _ assms(2,3)] field_error_payload new_Error_def)

text \<open>A resume whose extracted text is a blank, a newline and a blank, on both routes.\<close>

theorem blank_pdf_text_rejected_witness:
  \<open>req_file \<lparr>req_file = Some \<lparr>fieldname = js_str ''resume'', originalname = js_str ''cv.pdf'',
                                   mimetype = js_str ''application/pdf'', size_bytes = 10240,
                                   path = js_str ''uploads/1730000000000-cv.pdf''\<rparr>,
               req_body = JObj [(js_str ''jobDescription'', JStr (js_str ''Engineer''))]\<rparr>
      = Some \<lparr>fieldname = js_str ''resume'', originalname = js_str ''cv.pdf'',
               mimetype = js_str ''application/pdf'', size_bytes = 10240,
               path = js_str ''uploads/1730000000000-cv.pdf''\<rparr>
    \<and> pdf_parse (fixed_env (Inr JNull) (Inr (Some (js_str '' \<newline> ''))) (Inr []) None)
          (files empty_world) (js_str ''uploads/1730000000000-cv.pdf'')
        = Inr (Some (js_str '' \<newline> ''))
    \<and> list_all is_js_whitespace (js_str '' \<newline> '')
    \<and> truthy_opt (field (JObj [(js_str ''jobDescription'', JStr (js_str ''Engineer''))])
          ''jobDescription'')
    \<and> (\<exists>r. responses (snd (ats_check
                (fixed_env (Inr JNull) (Inr (Some (js_str '' \<newline> ''))) (Inr []) None)
                \<lparr>req_file = Some \<lparr>fieldname = js_str ''resume'', originalname = js_str ''cv.pdf'',
                                   mimetype = js_str ''application/pdf'', size_bytes = 10240,
                                   path = js_str ''uploads/1730000000000-cv.pdf''\<rparr>,
                  req_body = JObj [(js_str ''jobDescription'', JStr (js_str ''Engineer''))]\<rparr>
                empty_world)) = [r]
          \<and> status r = 500
          \<and> field (body r) ''error'' = Some (JStr (js_str ''Could not extract text from PDF'')))
    \<and> (\<exists>r. responses (snd (generate_cover_letter
                (fixed_env (Inr JNull) (Inr (Some (js_str '' \<newline> ''))) (Inr []) None)
                \<lparr>req_file = Some \<lparr>fieldname = js_str ''resume'', originalname = js_str ''cv.pdf'',
                                   mimetype = js_str ''application/pdf'', size_bytes = 10240,
                                   path = js_str ''uploads/1730000000000-cv.pdf''\<rparr>,
                  req_body = JObj [(js_str ''jobDescription'', JStr (js_str ''Engineer''))]\<rparr>
                empty_world)) = [r]
          \<and> status r = 500
          \<and> field (body r) ''error'' =
               Some (JStr (js_str ''Could not extract text from resume PDF'')))\<close>
proof -
  let ?F = "\<lparr>fieldname = js_str ''resume'', originalname = js_str ''cv.pdf'',
             mimetype = js_str ''application/pdf'', size_bytes = 10240,
             path = js_str ''uploads/1730000000000-cv.pdf''\<rparr>"
  let ?B = "JObj [(js_str ''jobDescription'', JStr (js_str ''Engineer''))]"
  let ?R = "\<lparr>req_file = Some ?F, req_body = ?B\<rparr>"
  let ?E = "fixed_env (Inr JNull) (Inr (Some (js_str '' \<newline> ''))) (Inr []) None"
  have h1: "req_file ?R = Some ?F" by simp
  have h2: "pdf_parse ?E (files empty_world) (path ?F) = Inr (Some (js_str '' \<newline> ''))"
    by (simp add: fixed_env_def)
  have ws: "\<forall>c \<in> set (js_str '' \<newline> ''). is_js_whitespace c"
    by (simp add: js_str_def is_js_whitespace_def)
  then have h3: "case Some (js_str '' \<newline> '') of None \<Rightarrow> True
                 | Some s \<Rightarrow> \<forall>c \<in> set s. is_js_whitespace c" by simp
  have h4: "truthy_opt (field ?B ''jobDescription'')" by simp
  have e: "responses empty_world = []" by (simp add: responses_def empty_world_def)
  from blank_pdf_text_rejected [OF h1 h2 h3] h4 e h2 ws
  show ?thesis by (simp add: list_all_iff)
qed

text \<open>
  Claim C5.  On the text route, a body (an object or an array, as the JSON body parser
  delivers it) in which \<open>jobDescription\<close> or \<open>skillsExperience\<close> is missing or falsy is
  answered with status 400 and the body
  \<open>{success: false, error: "Both job description and skills/experience are required"}\<close>;
  the response is the only effect, so the generation client is not called.
\<close>

theorem text_route_requires_both_fields:
  assumes "req_body req \<noteq> JNull"
    and "\<not> truthy_opt (field (req_body req) ''jobDescription'')
         \<or> \<not> truthy_opt (field (req_body req) ''skillsExperience'')"
  shows "generate_cover_letter_text env req w =
           (Inr (),
            emit (Respond \<lparr>status = 400, body = JObj
                   [(js_str ''success'', JBool False),
                    (js_str ''error'',
                       JStr (js_str ''Both job description and skills/experience are required''))]\<rparr>) w)
         \<and> filter is_generate (trace (snd (generate_cover_letter_text env req w)))
             = filter is_generate (trace w)"
  using assms
  by (auto simp: generate_cover_letter_text_def text_try_def destructure_field res_json_def
      js_object_def)

text \<open>The scenario of the specification: \<open>skillsExperience\<close> is missing.\<close>

theorem text_route_requires_both_fields_witness:
  \<open>JObj [(js_str ''jobDescription'', JStr (js_str ''Engineer''))] \<noteq> JNull
    \<and> \<not> truthy_opt (field (JObj [(js_str ''jobDescription'', JStr (js_str ''Engineer''))])
            ''skillsExperience'')
    \<and> generate_cover_letter_text
        (fixed_env (Inr JNull) (Inr None) (Inr (js_str ''Dear team'')) None)
        \<lparr>req_file = None,
          req_body = JObj [(js_str ''jobDescription'', JStr (js_str ''Engineer''))]\<rparr>
        empty_world
      = (Inr (),
         \<lparr>files = [],
          trace = [Respond \<lparr>status = 400, body = JObj
                     [(js_str ''success'', JBool False),
                      (js_str ''error'',
                         JStr (js_str ''Both job description and skills/experience are required''))]\<rparr>]\<rparr>)\<close>
proof -
  let ?B = "JObj [(js_str ''jobDescription'', JStr (js_str ''Engineer''))]"
  let ?R = "\<lparr>req_file = None, req_body = ?B\<rparr>"
  have h1: "req_body ?R \<noteq> JNull" by simp
  have h2: "\<not> truthy_opt (field (req_body ?R) ''jobDescription'')
         \<or> \<not> truthy_opt (field (req_body ?R) ''skillsExperience'')" by simp
  from text_route_requires_both_fields [OF h1 h2, of _ empty_world]
  show ?thesis by (simp add: emit_def empty_world_def)
qed

text \<open>
  The normalizers never end with an exception, so the outer \<^verbatim>\<open>try\<close> block of the ATS
  handler fails in four ways only: no file, extraction failure, blank text, generation
  failure.  The cover-letter handler adds the missing job description and a job
  description that cannot be converted to a string, and the text handler, past its
  validation, fails by such a conversion or by a generation failure.
\<close>

lemma ats_normalize_ends_normally: "fst (ats_normalize env t w) = Inr ()"
  by (simp add: ats_normalize_def split: prod.splits sum.splits)

lemma cover_normalize_ends_normally: "fst (cover_normalize env t w) = Inr ()"
  by (simp add: cover_normalize_def split: sum.splits)

lemma text_normalize_ends_normally: "fst (text_normalize env t w) = Inr ()"
  by (simp add: text_normalize_def split: sum.splits)

lemma ats_try_error_cases:
  assumes "ats_try env req w = (Inl error, fp, w1)"
  shows "(req_file req = None \<and> error = new_Error env ''No file uploaded'')
       \<or> (\<exists>f e. req_file req = Some f \<and> pdf_parse env (files w) (path f) = Inl e
              \<and> error = new_Error env ''Failed to extract text from PDF'')
       \<or> (\<exists>f text. req_file req = Some f \<and> pdf_parse env (files w) (path f) = Inr text
              \<and> (case text of None \<Rightarrow> True | Some s \<Rightarrow> s = [] \<or> trim s = [])
              \<and> error = new_Error env ''Could not extract text from PDF'')
       \<or> (\<exists>prompt. generateContent env prompt = Inl error)"
proof (cases "req_file req")
  case None
  with assms show ?thesis by (simp add: ats_try_def)
next
  case (Some f)
  show ?thesis
  proof (cases "pdf_parse env (files w) (path f)")
    case (Inl e)
    with Some assms show ?thesis
      by (simp add: ats_try_def extractTextFromPDF_def Let_def)
  next
    case (Inr extracted)
    define blank where "blank = (case extracted of None \<Rightarrow> True | Some s \<Rightarrow> s = [] \<or> trim s = [])"
    show ?thesis
    proof (cases blank)
      case True
      with Some Inr assms show ?thesis
        by (auto simp: blank_def ats_try_def extractTextFromPDF_def Let_def split: option.splits)
    next
      case False
      then obtain s where s: "extracted = Some s" "s \<noteq> []" "trim s \<noteq> []"
        by (cases extracted) (auto simp: blank_def)
      have "generateContent env (ats_prompt s) = Inl error"
      proof (cases "generateContent env (ats_prompt s)")
        case (Inl e)
        with Some Inr s assms show ?thesis
          by (simp add: ats_try_def extractTextFromPDF_def Let_def)
      next
        case (Inr responseText)
        with Some \<open>pdf_parse env (files w) (path f) = Inr extracted\<close> s assms
        have "fst (ats_normalize env responseText
                (emit (GenerateCall (ats_prompt s)) (emit (ExtractCall (path f)) w))) = Inl error"
          by (simp add: ats_try_def extractTextFromPDF_def Let_def split: prod.splits)
        then show ?thesis by (simp add: ats_normalize_ends_normally)
      qed
      then show ?thesis by blast
    qed
  qed
qed

lemma cover_try_error_cases:
  assumes "cover_try env req w = (Inl error, fp, w1)" and "req_body req \<noteq> JNull"
  shows "(req_file req = None \<and> error = new_Error env ''No resume file uploaded'')
       \<or> (\<not> truthy_opt (field (req_body req) ''jobDescription'')
              \<and> error = new_Error env ''No job description provided'')
       \<or> (\<exists>f e. req_file req = Some f \<and> pdf_parse env (files w) (path f) = Inl e
              \<and> error = new_Error env ''Failed to extract text from PDF'')
       \<or> (\<exists>f extracted. req_file req = Some f \<and> pdf_parse env (files w) (path f) = Inr extracted
              \<and> (case extracted of None \<Rightarrow> True | Some s \<Rightarrow> s = [] \<or> trim s = [])
              \<and> error = new_Error env ''Could not extract text from resume PDF'')
       \<or> template_value env (field (req_body req) ''jobDescription'') = Inl error
       \<or> (\<exists>prompt. generateContent env prompt = Inl error)"
proof -
  have n: "cover_normalize env t w0 = (Inl error, w3) \<Longrightarrow> False" for t w0 w3
    using cover_normalize_ends_normally [of env t w0] by simp
  show ?thesis
    using assms
    by (auto simp: cover_try_def get_prop_field extractTextFromPDF_def Let_def
        split: option.splits sum.splits prod.splits if_splits dest: n)
qed

lemma text_try_error_cases:
  assumes "text_try env req w = (Inl error, w1)" and "req_body req \<noteq> JNull"
  shows "template_value env (field (req_body req) ''skillsExperience'') = Inl error
       \<or> template_value env (field (req_body req) ''jobDescription'') = Inl error
       \<or> (\<exists>prompt. generateContent env prompt = Inl error)"
proof -
  have n: "text_normalize env t w0 = (Inl error, w3) \<Longrightarrow> False" for t w0 w3
    using text_normalize_ends_normally [of env t w0] by simp
  show ?thesis
    using assms
    by (auto simp: text_try_def destructure_field Let_def
        split: sum.splits if_splits dest: n)
qed

text \<open>
  What each failure does to the \<^verbatim>\<open>try\<close> block it occurs in, and what the \<^verbatim>\<open>catch\<close> block
  of each handler sends for an exception of its \<^verbatim>\<open>try\<close> block.
\<close>

lemma ats_try_no_file:
  "req_file req = None \<Longrightarrow> ats_try env req w = (Inl (new_Error env ''No file uploaded''), None, w)"
  by (simp add: ats_try_def)

lemma ats_try_extraction_failure:
  assumes "req_file req = Some f" and "pdf_parse env (files w) (path f) = Inl e"
  shows "ats_try env req w =
    (Inl (new_Error env ''Failed to extract text from PDF''), Some (path f),
     emit (ConsoleError ''PDF extraction error:'' e) (emit (ExtractCall (path f)) w))"
  using assms by (simp add: ats_try_def extractTextFromPDF_def Let_def)

lemma trim_nonempty: "trim s \<noteq> [] \<Longrightarrow> s \<noteq> []"
  by (auto simp: trim_def)

lemma ats_try_generation_failure:
  assumes "req_file req = Some f" and "pdf_parse env (files w) (path f) = Inr (Some s)"
    and "trim s \<noteq> []" and "generateContent env (ats_prompt s) = Inl e"
  shows "ats_try env req w =
    (Inl e, Some (path f), emit (GenerateCall (ats_prompt s)) (emit (ExtractCall (path f)) w))"
  using assms trim_nonempty [OF assms(3)]
  by (simp add: ats_try_def extractTextFromPDF_def Let_def)

lemma cover_try_no_file:
  "req_file req = None \<Longrightarrow>
   cover_try env req w = (Inl (new_Error env ''No resume file uploaded''), None, w)"
  by (simp add: cover_try_def)

lemma cover_try_no_job_description:
  assumes "req_file req = Some f" and "req_body req \<noteq> JNull"
    and "\<not> truthy_opt (field (req_body req) ''jobDescription'')"
  shows "cover_try env req w = (Inl (new_Error env ''No job description provided''), None, w)"
  using assms by (simp add: cover_try_def get_prop_field)

lemma truthy_field_not_null: "truthy_opt (field v name) \<Longrightarrow> v \<noteq> JNull"
  by (cases v) auto

lemma cover_try_extraction_failure:
  assumes "req_file req = Some f" and "truthy_opt (field (req_body req) ''jobDescription'')"
    and "pdf_parse env (files w) (path f) = Inl e"
  shows "cover_try env req w =
    (Inl (new_Error env ''Failed to extract text from PDF''), Some (path f),
     emit (ConsoleError ''PDF extraction error:'' e) (emit (ExtractCall (path f)) w))"
  using assms truthy_field_not_null [OF assms(2)]
  by (simp add: cover_try_def get_prop_field extractTextFromPDF_def Let_def)

lemma cover_try_generation_failure:
  assumes "req_file req = Some f" and "truthy_opt (field (req_body req) ''jobDescription'')"
    and "pdf_parse env (files w) (path f) = Inr (Some s)" and "trim s \<noteq> []"
    and "template_value env (field (req_body req) ''jobDescription'') = Inr jd"
    and "generateContent env (cover_letter_prompt s jd) = Inl e"
  shows "cover_try env req w =
    (Inl e, Some (path f),
     emit (GenerateCall (cover_letter_prompt s jd)) (emit (ExtractCall (path f)) w))"
  using assms truthy_field_not_null [OF assms(2)] trim_nonempty [OF assms(4)]
  by (simp add: cover_try_def get_prop_field extractTextFromPDF_def Let_def)

lemma text_try_generation_failure:
  assumes "truthy_opt (field (req_body req) ''jobDescription'')"
    and "truthy_opt (field (req_body req) ''skillsExperience'')"
    and "template_value env (field (req_body req) ''skillsExperience'') = Inr se"
    and "template_value env (field (req_body req) ''jobDescription'') = Inr jd"
    and "generateContent env (text_prompt se jd) = Inl e"
  shows "text_try env req w = (Inl e, emit (GenerateCall (text_prompt se jd)) w)"
  using assms truthy_field_not_null [OF assms(1)]
  by (simp add: text_try_def destructure_field Let_def)

lemma upload_handlers_end_normally:
  "fst (ats_check env req w) = Inr ()" "fst (generate_cover_letter env req w) = Inr ()"
  by (simp_all add: ats_check_def generate_cover_letter_def split: prod.splits sum.splits)

lemma text_handler_ends_normally: "fst (generate_cover_letter_text env req w) = Inr ()"
proof (cases "text_try env req w")
  case (Pair r w1)
  show ?thesis
  proof (cases r)
    case (Inl e)
    with Pair show ?thesis by (simp add: generate_cover_letter_text_def)
  next
    case (Inr u)
    with Pair show ?thesis by (simp add: generate_cover_letter_text_def)
  qed
qed

lemma ats_check_on_error:
  "ats_try env req w = (Inl error, fp, w1) \<Longrightarrow>
   responses (snd (ats_check env req w))
     = responses w1 @ [\<lparr>status = 500, body = error_payload env ''Failed to check ATS score'' error\<rparr>]"
  by (simp add: ats_check_def)

lemma generate_cover_letter_on_error:
  "cover_try env req w = (Inl error, fp, w1) \<Longrightarrow>
   responses (snd (generate_cover_letter env req w))
     = responses w1 @ [\<lparr>status = 500, body = error_payload env ''Failed to generate cover letter'' error\<rparr>]"
  by (simp add: generate_cover_letter_def)

lemma generate_cover_letter_text_on_error:
  "text_try env req w = (Inl error, w1) \<Longrightarrow>
   responses (snd (generate_cover_letter_text env req w))
     = responses w1 @ [\<lparr>status = 500, body = js_object
          [(''success'', Some (JBool False)),
           (''error'', Some (JStr (js_str ''Failed to generate cover letter''))),
           (''details'', if NODE_ENV env = Some (js_str ''development'')
                         then Some (JStr (message error)) else None)]\<rparr>]"
  by (simp add: generate_cover_letter_text_def)

text \<open>
  Claim C7, as amended.  Every handler ends normally: no exception leaves it.  On the two
  upload routes a missing file, a missing job description, an extraction failure, a blank
  extracted text and a generation failure are each answered with status 500 and the
  payload \<open>{error, details}\<close>: \<open>error\<close> is the message of the failure (the route's
  default when the message is empty) and \<open>details\<close>, the stack trace, is present in
  development mode only.  On the text route a missing or falsy field is answered with
  status 400 and \<open>{success: false, error}\<close>, and a generation failure with status 500 and
  \<open>{success: false, error: "Failed to generate cover letter", details}\<close>: the error text
  is fixed, and the failure's message is the \<open>details\<close> of development mode.  A wrong MIME
  type and an oversized file are refused by the upload middleware before a handler runs:
  the route ends with the middleware's error, no \<^verbatim>\<open>catch\<close> block of the source runs and
  the source sends no payload for them.
\<close>

theorem handler_errors_surface:
  "(fst (ats_check env req w) = Inr ()
     \<and> fst (generate_cover_letter env req w) = Inr ()
     \<and> fst (generate_cover_letter_text env req w) = Inr ())
   \<and> (req_file req = None \<longrightarrow>
       responses (snd (ats_check env req w)) = responses w @ [\<lparr>status = 500, body = error_payload env ''Failed to check ATS score'' (new_Error env ''No file uploaded'')\<rparr>]
       \<and> responses (snd (generate_cover_letter env req w)) = responses w @ [\<lparr>status = 500, body = error_payload env ''Failed to generate cover letter'' (new_Error env ''No resume file uploaded'')\<rparr>])
   \<and> (req_file req = Some f \<and> req_body req \<noteq> JNull \<and> \<not> truthy_opt (field (req_body req) ''jobDescription'') \<longrightarrow>
       responses (snd (generate_cover_letter env req w)) = responses w @ [\<lparr>status = 500, body = error_payload env ''Failed to generate cover letter'' (new_Error env ''No job description provided'')\<rparr>])
   \<and> (req_file req = Some f \<and> pdf_parse env (files w) (path f) = Inl e \<longrightarrow>
       responses (snd (ats_check env req w)) = responses w @ [\<lparr>status = 500, body = error_payload env ''Failed to check ATS score'' (new_Error env ''Failed to extract text from PDF'')\<rparr>])
   \<and> (req_file req = Some f \<and> truthy_opt (field (req_body req) ''jobDescription'')
       \<and> pdf_parse env (files w) (path f) = Inl e \<longrightarrow>
       responses (snd (generate_cover_letter env req w)) = responses w @ [\<lparr>status = 500, body = error_payload env ''Failed to generate cover letter'' (new_Error env ''Failed to extract text from PDF'')\<rparr>])
   \<and> (req_file req = Some f \<and> pdf_parse env (files w) (path f) = Inr x
       \<and> (case x of None \<Rightarrow> True | Some s \<Rightarrow> \<forall>c \<in> set s. is_js_whitespace c) \<longrightarrow>
       responses (snd (ats_check env req w)) = responses w @ [\<lparr>status = 500, body = error_payload env ''Failed to check ATS score'' (new_Error env ''Could not extract text from PDF'')\<rparr>])
   \<and> (req_file req = Some f \<and> truthy_opt (field (req_body req) ''jobDescription'')
       \<and> pdf_parse env (files w) (path f) = Inr x
       \<and> (case x of None \<Rightarrow> True | Some s \<Rightarrow> \<forall>c \<in> set s. is_js_whitespace c) \<longrightarrow>
       responses (snd (generate_cover_letter env req w)) = responses w @ [\<lparr>status = 500, body = error_payload env ''Failed to generate cover letter'' (new_Error env ''Could not extract text from resume PDF'')\<rparr>])
   \<and> (req_file req = Some f \<and> pdf_parse env (files w) (path f) = Inr (Some s)
       \<and> trim s \<noteq> [] \<and> generateContent env (ats_prompt s) = Inl e \<longrightarrow>
       responses (snd (ats_check env req w)) = responses w @ [\<lparr>status = 500, body = error_payload env ''Failed to check ATS score'' e\<rparr>])
   \<and> (req_file req = Some f \<and> truthy_opt (field (req_body req) ''jobDescription'')
       \<and> pdf_parse env (files w) (path f) = Inr (Some s) \<and> trim s \<noteq> []
       \<and> template_value env (field (req_body req) ''jobDescription'') = Inr jd
       \<and> generateContent env (cover_letter_prompt s jd) = Inl e \<longrightarrow>
       responses (snd (generate_cover_letter env req w)) = responses w @ [\<lparr>status = 500, body = error_payload env ''Failed to generate cover letter'' e\<rparr>])
   \<and> (req_body req \<noteq> JNull
       \<and> (\<not> truthy_opt (field (req_body req) ''jobDescription'') \<or> \<not> truthy_opt (field (req_body req) ''skillsExperience'')) \<longrightarrow>
       responses (snd (generate_cover_letter_text env req w)) = responses w @
          [\<lparr>status = 400, body = JObj
              [(js_str ''success'', JBool False),
               (js_str ''error'',
                  JStr (js_str ''Both job description and skills/experience are required''))]\<rparr>])
   \<and> (truthy_opt (field (req_body req) ''jobDescription'') \<and> truthy_opt (field (req_body req) ''skillsExperience'')
       \<and> template_value env (field (req_body req) ''skillsExperience'') = Inr se
       \<and> template_value env (field (req_body req) ''jobDescription'') = Inr jd
       \<and> generateContent env (text_prompt se jd) = Inl e \<longrightarrow>
       responses (snd (generate_cover_letter_text env req w)) = responses w @
          [\<lparr>status = 500, body = js_object
              [(''success'', Some (JBool False)),
               (''error'', Some (JStr (js_str ''Failed to generate cover letter''))),
               (''details'', if NODE_ENV env = Some (js_str ''development'')
                             then Some (JStr (message e)) else None)]\<rparr>])
   \<and> (part r = Some i
       \<and> (mimetype i \<noteq> js_str ''application/pdf'' \<or> 5 * 1024 * 1024 < size_bytes i) \<longrightarrow>
       (\<exists>err. fst (route env handler r w) = Inl err)
       \<and> responses (snd (route env handler r w)) = responses w)
   \<and> (field (error_payload env d error) ''error''
        = Some (JStr (if message error \<noteq> [] then message error else js_str d))
     \<and> field (error_payload env d error) ''details''
        = (if NODE_ENV env = Some (js_str ''development'') then Some (JStr (stack error))
           else None))"
proof -
  have ends: "fst (ats_check env req w) = Inr ()
     \<and> fst (generate_cover_letter env req w) = Inr ()
     \<and> fst (generate_cover_letter_text env req w) = Inr ()"
    by (simp add: upload_handlers_end_normally text_handler_ends_normally)
  have nofile: "req_file req = None \<longrightarrow>
       responses (snd (ats_check env req w)) = responses w @ [\<lparr>status = 500, body = error_payload env ''Failed to check ATS score'' (new_Error env ''No file uploaded'')\<rparr>]
       \<and> responses (snd (generate_cover_letter env req w)) = responses w @ [\<lparr>status = 500, body = error_payload env ''Failed to generate cover letter'' (new_Error env ''No resume file uploaded'')\<rparr>]"
    by (simp add: ats_check_on_error [OF ats_try_no_file]
        generate_cover_letter_on_error [OF cover_try_no_file])
  have nojob: "req_file req = Some f \<and> req_body req \<noteq> JNull \<and> \<not> truthy_opt (field (req_body req) ''jobDescription'') \<longrightarrow>
       responses (snd (generate_cover_letter env req w)) = responses w @ [\<lparr>status = 500, body = error_payload env ''Failed to generate cover letter'' (new_Error env ''No job description provided'')\<rparr>]"
    by (simp add: generate_cover_letter_on_error [OF cover_try_no_job_description])
  have extract_ats: "req_file req = Some f \<and> pdf_parse env (files w) (path f) = Inl e \<longrightarrow>
       responses (snd (ats_check env req w)) = responses w @ [\<lparr>status = 500, body = error_payload env ''Failed to check ATS score'' (new_Error env ''Failed to extract text from PDF'')\<rparr>]"
    by (simp add: ats_check_on_error [OF ats_try_extraction_failure])
  have extract_cov: "req_file req = Some f \<and> truthy_opt (field (req_body req) ''jobDescription'')
       \<and> pdf_parse env (files w) (path f) = Inl e \<longrightarrow>
       responses (snd (generate_cover_letter env req w)) = responses w @ [\<lparr>status = 500, body = error_payload env ''Failed to generate cover letter'' (new_Error env ''Failed to extract text from PDF'')\<rparr>]"
    by (simp add: generate_cover_letter_on_error [OF cover_try_extraction_failure])
  have blank_ats: "req_file req = Some f \<and> pdf_parse env (files w) (path f) = Inr x
       \<and> (case x of None \<Rightarrow> True | Some s \<Rightarrow> \<forall>c \<in> set s. is_js_whitespace c) \<longrightarrow>
       responses (snd (ats_check env req w)) = responses w @ [\<lparr>status = 500, body = error_payload env ''Failed to check ATS score'' (new_Error env ''Could not extract text from PDF'')\<rparr>]"
    by (simp add: ats_check_on_error [OF ats_try_blank])
  have blank_cov: "req_file req = Some f \<and> truthy_opt (field (req_body req) ''jobDescription'')
       \<and> pdf_parse env (files w) (path f) = Inr x
       \<and> (case x of None \<Rightarrow> True | Some s \<Rightarrow> \<forall>c \<in> set s. is_js_whitespace c) \<longrightarrow>
       responses (snd (generate_cover_letter env req w)) = responses w @ [\<lparr>status = 500, body = error_payload env ''Failed to generate cover letter'' (new_Error env ''Could not extract text from resume PDF'')\<rparr>]"
    by (simp add: generate_cover_letter_on_error [OF cover_try_blank])
  have gen_ats: "req_file req = Some f \<and> pdf_parse env (files w) (path f) = Inr (Some s)
       \<and> trim s \<noteq> [] \<and> generateContent env (ats_prompt s) = Inl e \<longrightarrow>
       responses (snd (ats_check env req w)) = responses w @ [\<lparr>status = 500, body = error_payload env ''Failed to check ATS score'' e\<rparr>]"
    by (simp add: ats_check_on_error [OF ats_try_generation_failure])
  have gen_cov: "req_file req = Some f \<and> truthy_opt (field (req_body req) ''jobDescription'')
       \<and> pdf_parse env (files w) (path f) = Inr (Some s) \<and> trim s \<noteq> []
       \<and> template_value env (field (req_body req) ''jobDescription'') = Inr jd
       \<and> generateContent env (cover_letter_prompt s jd) = Inl e \<longrightarrow>
       responses (snd (generate_cover_letter env req w)) = responses w @ [\<lparr>status = 500, body = error_payload env ''Failed to generate cover letter'' e\<rparr>]"
    by (simp add: generate_cover_letter_on_error [OF cover_try_generation_failure])
  have text400: "req_body req \<noteq> JNull
       \<and> (\<not> truthy_opt (field (req_body req) ''jobDescription'') \<or> \<not> truthy_opt (field (req_body req) ''skillsExperience'')) \<longrightarrow>
       responses (snd (generate_cover_letter_text env req w)) = responses w @
          [\<lparr>status = 400, body = JObj
              [(js_str ''success'', JBool False),
               (js_str ''error'',
                  JStr (js_str ''Both job description and skills/experience are required''))]\<rparr>]"
    by (auto simp: generate_cover_letter_text_def text_try_def destructure_field js_object_def)
  have gen_text: "truthy_opt (field (req_body req) ''jobDescription'') \<and> truthy_opt (field (req_body req) ''skillsExperience'')
       \<and> template_value env (field (req_body req) ''skillsExperience'') = Inr se
       \<and> template_value env (field (req_body req) ''jobDescription'') = Inr jd
       \<and> generateContent env (text_prompt se jd) = Inl e \<longrightarrow>
       responses (snd (generate_cover_letter_text env req w)) = responses w @
          [\<lparr>status = 500, body = js_object
              [(''success'', Some (JBool False)),
               (''error'', Some (JStr (js_str ''Failed to generate cover letter''))),
               (''details'', if NODE_ENV env = Some (js_str ''development'')
                             then Some (JStr (message e)) else None)]\<rparr>]"
    by (simp add: generate_cover_letter_text_on_error [OF text_try_generation_failure])
  have refused: "part r = Some i
       \<and> (mimetype i \<noteq> js_str ''application/pdf'' \<or> 5 * 1024 * 1024 < size_bytes i) \<longrightarrow>
       (\<exists>err. fst (route env handler r w) = Inl err)
       \<and> responses (snd (route env handler r w)) = responses w"
    by (auto simp: route_def upload_single_def fileFilter_def fileSize_def)
  have payload: "field (error_payload env d error) ''error''
        = Some (JStr (if message error \<noteq> [] then message error else js_str d))
     \<and> field (error_payload env d error) ''details''
        = (if NODE_ENV env = Some (js_str ''development'') then Some (JStr (stack error))
           else None)"
    by (simp add: field_error_payload)
  show ?thesis
    by (intro conjI ends nofile nojob extract_ats extract_cov blank_ats blank_cov gen_ats gen_cov text400 gen_text refused payload)
qed

text \<open>
  One instance of every case: no file on both upload routes; no job description; a PDF
  the parser refuses, a resume of white space only and a generation failure in
  development mode, each on both upload routes; a missing field and a generation failure
  on the text route; a PNG and a PDF of 6 MiB at the upload middleware.
\<close>

theorem handler_errors_surface_witness:
  \<open>responses (snd (ats_check
    (fixed_env (Inr JNull) (Inr None) (Inr []) None)
    \<lparr>req_file = None, req_body = JObj []\<rparr>
    empty_world))
   = [\<lparr>status = 500, body = JObj
       [(js_str ''error'', JStr (js_str ''No file uploaded''))]\<rparr>]
   \<and> responses (snd (generate_cover_letter
    (fixed_env (Inr JNull) (Inr None) (Inr []) None)
    \<lparr>req_file = None, req_body = JObj []\<rparr>
    empty_world))
   = [\<lparr>status = 500, body = JObj
       [(js_str ''error'', JStr (js_str ''No resume file uploaded''))]\<rparr>]
   \<and> responses (snd (generate_cover_letter
    (fixed_env (Inr JNull) (Inr None) (Inr []) None)
    \<lparr>req_file = Some \<lparr>fieldname = js_str ''resume'', originalname = js_str ''cv.pdf'',
      mimetype = js_str ''application/pdf'', size_bytes = 10240,
      path = js_str ''uploads/1730000000000-cv.pdf''\<rparr>,
    req_body = JObj []\<rparr>
    empty_world))
   = [\<lparr>status = 500, body = JObj
       [(js_str ''error'', JStr (js_str ''No job description provided''))]\<rparr>]
   \<and> responses (snd (ats_check
    (fixed_env (Inr JNull) (Inl \<lparr>message = js_str ''Invalid PDF structure'', stack = js_str ''Error: Invalid PDF structure''\<rparr>) (Inr []) None)
    \<lparr>req_file = Some \<lparr>fieldname = js_str ''resume'', originalname = js_str ''cv.pdf'',
      mimetype = js_str ''application/pdf'', size_bytes = 10240,
      path = js_str ''uploads/1730000000000-cv.pdf''\<rparr>,
    req_body = JObj [(js_str ''jobDescription'', JStr (js_str ''Engineer''))]\<rparr>
    empty_world))
   = [\<lparr>status = 500, body = JObj
       [(js_str ''error'', JStr (js_str ''Failed to extract text from PDF''))]\<rparr>]
   \<and> responses (snd (generate_cover_letter
    (fixed_env (Inr JNull) (Inl \<lparr>message = js_str ''Invalid PDF structure'', stack = js_str ''Error: Invalid PDF structure''\<rparr>) (Inr []) None)
    \<lparr>req_file = Some \<lparr>fieldname = js_str ''resume'', originalname = js_str ''cv.pdf'',
      mimetype = js_str ''application/pdf'', size_bytes = 10240,
      path = js_str ''uploads/1730000000000-cv.pdf''\<rparr>,
    req_body = JObj [(js_str ''jobDescription'', JStr (js_str ''Engineer''))]\<rparr>
    empty_world))
   = [\<lparr>status = 500, body = JObj
       [(js_str ''error'', JStr (js_str ''Failed to extract text from PDF''))]\<rparr>]
   \<and> responses (snd (ats_check
    (fixed_env (Inr JNull) (Inr (Some (js_str '' \<newline> ''))) (Inr []) None)
    \<lparr>req_file = Some \<lparr>fieldname = js_str ''resume'', originalname = js_str ''cv.pdf'',
      mimetype = js_str ''application/pdf'', size_bytes = 10240,
      path = js_str ''uploads/1730000000000-cv.pdf''\<rparr>,
    req_body = JObj [(js_str ''jobDescription'', JStr (js_str ''Engineer''))]\<rparr>
    empty_world))
   = [\<lparr>status = 500, body = JObj
       [(js_str ''error'', JStr (js_str ''Could not extract text from PDF''))]\<rparr>]
   \<and> responses (snd (generate_cover_letter
    (fixed_env (Inr JNull) (Inr (Some (js_str '' \<newline> ''))) (Inr []) None)
    \<lparr>req_file = Some \<lparr>fieldname = js_str ''resume'', originalname = js_str ''cv.pdf'',
      mimetype = js_str ''application/pdf'', size_bytes = 10240,
      path = js_str ''uploads/1730000000000-cv.pdf''\<rparr>,
    req_body = JObj [(js_str ''jobDescription'', JStr (js_str ''Engineer''))]\<rparr>
    empty_world))
   = [\<lparr>status = 500, body = JObj
       [(js_str ''error'', JStr (js_str ''Could not extract text from resume PDF''))]\<rparr>]
   \<and> responses (snd (ats_check
    (fixed_env (Inr JNull) (Inr (Some (js_str ''Jane Doe'')))
      (Inl \<lparr>message = js_str ''quota exceeded'', stack = js_str ''Error: quota exceeded''\<rparr>)
      (Some (js_str ''development'')))
    \<lparr>req_file = Some \<lparr>fieldname = js_str ''resume'', originalname = js_str ''cv.pdf'',
      mimetype = js_str ''application/pdf'', size_bytes = 10240,
      path = js_str ''uploads/1730000000000-cv.pdf''\<rparr>,
    req_body = JObj [(js_str ''jobDescription'', JStr (js_str ''Engineer''))]\<rparr>
    empty_world))
   = [\<lparr>status = 500, body = JObj
       [(js_str ''error'', JStr (js_str ''quota exceeded'')),
        (js_str ''details'', JStr (js_str ''Error: quota exceeded''))]\<rparr>]
   \<and> responses (snd (generate_cover_letter
    (fixed_env (Inr JNull) (Inr (Some (js_str ''Jane Doe'')))
      (Inl \<lparr>message = js_str ''quota exceeded'', stack = js_str ''Error: quota exceeded''\<rparr>)
      (Some (js_str ''development'')))
    \<lparr>req_file = Some \<lparr>fieldname = js_str ''resume'', originalname = js_str ''cv.pdf'',
      mimetype = js_str ''application/pdf'', size_bytes = 10240,
      path = js_str ''uploads/1730000000000-cv.pdf''\<rparr>,
    req_body = JObj [(js_str ''jobDescription'', JStr (js_str ''Engineer''))]\<rparr>
    empty_world))
   = [\<lparr>status = 500, body = JObj
       [(js_str ''error'', JStr (js_str ''quota exceeded'')),
        (js_str ''details'', JStr (js_str ''Error: quota exceeded''))]\<rparr>]
   \<and> responses (snd (generate_cover_letter_text
    (fixed_env (Inr JNull) (Inr None) (Inr []) None)
    \<lparr>req_file = None, req_body = JObj [(js_str ''jobDescription'', JStr (js_str ''Engineer''))]\<rparr>
    empty_world))
   = [\<lparr>status = 400, body = JObj
       [(js_str ''success'', JBool False),
        (js_str ''error'',
           JStr (js_str ''Both job description and skills/experience are required''))]\<rparr>]
   \<and> responses (snd (generate_cover_letter_text
    (fixed_env (Inr JNull) (Inr (Some (js_str ''Jane Doe'')))
      (Inl \<lparr>message = js_str ''quota exceeded'', stack = js_str ''Error: quota exceeded''\<rparr>)
      (Some (js_str ''development'')))
    \<lparr>req_file = None,
    req_body = JObj [(js_str ''jobDescription'', JStr (js_str ''Engineer'')),
            (js_str ''skillsExperience'', JStr (js_str ''Five years''))]\<rparr>
    empty_world))
   = [\<lparr>status = 500, body = JObj
       [(js_str ''success'', JBool False),
        (js_str ''error'', JStr (js_str ''Failed to generate cover letter'')),
        (js_str ''details'', JStr (js_str ''quota exceeded''))]\<rparr>]
   \<and> (\<exists>err. fst (route (fixed_env (Inr JNull) (Inr None) (Inr []) None) ats_check
    \<lparr>part = Some \<lparr>fieldname = js_str ''resume'', originalname = js_str ''photo.png'',
      mimetype = js_str ''image/png'', size_bytes = 10240\<rparr>,
    text_fields = JObj []\<rparr>
    empty_world) = Inl err)
   \<and> responses (snd (route (fixed_env (Inr JNull) (Inr None) (Inr []) None) ats_check
    \<lparr>part = Some \<lparr>fieldname = js_str ''resume'', originalname = js_str ''photo.png'',
      mimetype = js_str ''image/png'', size_bytes = 10240\<rparr>,
    text_fields = JObj []\<rparr>
    empty_world)) = []
   \<and> (\<exists>err. fst (route (fixed_env (Inr JNull) (Inr None) (Inr []) None) ats_check
    \<lparr>part = Some \<lparr>fieldname = js_str ''resume'', originalname = js_str ''cv.pdf'',
      mimetype = js_str ''application/pdf'', size_bytes = 6291456\<rparr>,
    text_fields = JObj []\<rparr>
    empty_world) = Inl err)
   \<and> responses (snd (route (fixed_env (Inr JNull) (Inr None) (Inr []) None) ats_check
    \<lparr>part = Some \<lparr>fieldname = js_str ''resume'', originalname = js_str ''cv.pdf'',
      mimetype = js_str ''application/pdf'', size_bytes = 6291456\<rparr>,
    text_fields = JObj []\<rparr>
    empty_world)) = []\<close>
proof -
  have e: "responses \<lparr>files = [], trace = []\<rparr> = []" by (simp add: responses_def)
  have w1: "responses (snd (ats_check
    (fixed_env (Inr JNull) (Inr None) (Inr []) None)
    \<lparr>req_file = None, req_body = JObj []\<rparr>
    empty_world))
   = [\<lparr>status = 500, body = JObj
       [(js_str ''error'', JStr (js_str ''No file uploaded''))]\<rparr>]
   \<and> responses (snd (generate_cover_letter
    (fixed_env (Inr JNull) (Inr None) (Inr []) None)
    \<lparr>req_file = None, req_body = JObj []\<rparr>
    empty_world))
   = [\<lparr>status = 500, body = JObj
       [(js_str ''error'', JStr (js_str ''No resume file uploaded''))]\<rparr>]"
    using handler_errors_surface [where env = "(fixed_env (Inr JNull) (Inr None) (Inr []) None)" and req = "\<lparr>req_file = None, req_body = JObj []\<rparr>" and w = "empty_world", THEN conjunct2, THEN conjunct1]
    by (simp add: e fixed_env_def empty_world_def error_payload_def js_object_def new_Error_def
        trim_def is_js_whitespace_def js_str_def)
  have w3: "responses (snd (generate_cover_letter
    (fixed_env (Inr JNull) (Inr None) (Inr []) None)
    \<lparr>req_file = Some \<lparr>fieldname = js_str ''resume'', originalname = js_str ''cv.pdf'',
      mimetype = js_str ''application/pdf'', size_bytes = 10240,
      path = js_str ''uploads/1730000000000-cv.pdf''\<rparr>,
    req_body = JObj []\<rparr>
    empty_world))
   = [\<lparr>status = 500, body = JObj
       [(js_str ''error'', JStr (js_str ''No job description provided''))]\<rparr>]"
    using handler_errors_surface [where env = "(fixed_env (Inr JNull) (Inr None) (Inr []) None)" and req = "\<lparr>req_file = Some \<lparr>fieldname = js_str ''resume'', originalname = js_str ''cv.pdf'',       mimetype = js_str ''application/pdf'', size_bytes = 10240,       path = js_str ''uploads/1730000000000-cv.pdf''\<rparr>,     req_body = JObj []\<rparr>" and f = "\<lparr>fieldname = js_str ''resume'', originalname = js_str ''cv.pdf'',       mimetype = js_str ''application/pdf'', size_bytes = 10240,       path = js_str ''uploads/1730000000000-cv.pdf''\<rparr>" and w = "empty_world", THEN conjunct2, THEN conjunct2, THEN conjunct1]
    by (simp add: e fixed_env_def empty_world_def error_payload_def js_object_def new_Error_def
        trim_def is_js_whitespace_def js_str_def)
  have w4: "responses (snd (ats_check
    (fixed_env (Inr JNull) (Inl \<lparr>message = js_str ''Invalid PDF structure'', stack = js_str ''Error: Invalid PDF structure''\<rparr>) (Inr []) None)
    \<lparr>req_file = Some \<lparr>fieldname = js_str ''resume'', originalname = js_str ''cv.pdf'',
      mimetype = js_str ''application/pdf'', size_bytes = 10240,
      path = js_str ''uploads/1730000000000-cv.pdf''\<rparr>,
    req_body = JObj [(js_str ''jobDescription'', JStr (js_str ''Engineer''))]\<rparr>
    empty_world))
   = [\<lparr>status = 500, body = JObj
       [(js_str ''error'', JStr (js_str ''Failed to extract text from PDF''))]\<rparr>]"
    using handler_errors_surface [where env = "(fixed_env (Inr JNull) (Inl \<lparr>message = js_str ''Invalid PDF structure'', stack = js_str ''Error: Invalid PDF structure''\<rparr>) (Inr []) None)" and req = "\<lparr>req_file = Some \<lparr>fieldname = js_str ''resume'', originalname = js_str ''cv.pdf'',       mimetype = js_str ''application/pdf'', size_bytes = 10240,       path = js_str ''uploads/1730000000000-cv.pdf''\<rparr>,     req_body = JObj [(js_str ''jobDescription'', JStr (js_str ''Engineer''))]\<rparr>" and f = "\<lparr>fieldname = js_str ''resume'', originalname = js_str ''cv.pdf'',       mimetype = js_str ''application/pdf'', size_bytes = 10240,       path = js_str ''uploads/1730000000000-cv.pdf''\<rparr>" and e = "\<lparr>message = js_str ''Invalid PDF structure'', stack = js_str ''Error: Invalid PDF structure''\<rparr>" and w = "empty_world", THEN conjunct2, THEN conjunct2, THEN conjunct2, THEN conjunct1]
    by (simp add: e fixed_env_def empty_world_def error_payload_def js_object_def new_Error_def
        trim_def is_js_whitespace_def js_str_def)
  have w5: "responses (snd (generate_cover_letter
    (fixed_env (Inr JNull) (Inl \<lparr>message = js_str ''Invalid PDF structure'', stack = js_str ''Error: Invalid PDF structure''\<rparr>) (Inr []) None)
    \<lparr>req_file = Some \<lparr>fieldname = js_str ''resume'', originalname = js_str ''cv.pdf'',
      mimetype = js_str ''application/pdf'', size_bytes = 10240,
      path = js_str ''uploads/1730000000000-cv.pdf''\<rparr>,
    req_body = JObj [(js_str ''jobDescription'', JStr (js_str ''Engineer''))]\<rparr>
    empty_world))
   = [\<lparr>status = 500, body = JObj
       [(js_str ''error'', JStr (js_str ''Failed to extract text from PDF''))]\<rparr>]"
    using handler_errors_surface [where env = "(fixed_env (Inr JNull) (Inl \<lparr>message = js_str ''Invalid PDF structure'', stack = js_str ''Error: Invalid PDF structure''\<rparr>) (Inr []) None)" and req = "\<lparr>req_file = Some \<lparr>fieldname = js_str ''resume'', originalname = js_str ''cv.pdf'',       mimetype = js_str ''application/pdf'', size_bytes = 10240,       path = js_str ''uploads/1730000000000-cv.pdf''\<rparr>,     req_body = JObj [(js_str ''jobDescription'', JStr (js_str ''Engineer''))]\<rparr>" and f = "\<lparr>fieldname = js_str ''resume'', originalname = js_str ''cv.pdf'',       mimetype = js_str ''application/pdf'', size_bytes = 10240,       path = js_str ''uploads/1730000000000-cv.pdf''\<rparr>" and e = "\<lparr>message = js_str ''Invalid PDF structure'', stack = js_str ''Error: Invalid PDF structure''\<rparr>" and w = "empty_world", THEN conjunct2, THEN conjunct2, THEN conjunct2, THEN conjunct2, THEN conjunct1]
    by (simp add: e fixed_env_def empty_world_def error_payload_def js_object_def new_Error_def
        trim_def is_js_whitespace_def js_str_def)
  have w6: "responses (snd (ats_check
    (fixed_env (Inr JNull) (Inr (Some (js_str '' \<newline> ''))) (Inr []) None)
    \<lparr>req_file = Some \<lparr>fieldname = js_str ''resume'', originalname = js_str ''cv.pdf'',
      mimetype = js_str ''application/pdf'', size_bytes = 10240,
      path = js_str ''uploads/1730000000000-cv.pdf''\<rparr>,
    req_body = JObj [(js_str ''jobDescription'', JStr (js_str ''Engineer''))]\<rparr>
    empty_world))
   = [\<lparr>status = 500, body = JObj
       [(js_str ''error'', JStr (js_str ''Could not extract text from PDF''))]\<rparr>]"
    using handler_errors_surface [where env = "(fixed_env (Inr JNull) (Inr (Some (js_str '' \<newline> ''))) (Inr []) None)" and req = "\<lparr>req_file = Some \<lparr>fieldname = js_str ''resume'', originalname = js_str ''cv.pdf'',       mimetype = js_str ''application/pdf'', size_bytes = 10240,       path = js_str ''uploads/1730000000000-cv.pdf''\<rparr>,     req_body = JObj [(js_str ''jobDescription'', JStr (js_str ''Engineer''))]\<rparr>" and f = "\<lparr>fieldname = js_str ''resume'', originalname = js_str ''cv.pdf'',       mimetype = js_str ''application/pdf'', size_bytes = 10240,       path = js_str ''uploads/1730000000000-cv.pdf''\<rparr>" and x = "Some (js_str '' \<newline> '')" and w = "empty_world", THEN conjunct2, THEN conjunct2, THEN conjunct2, THEN conjunct2, THEN conjunct2, THEN conjunct1]
    by (simp add: e fixed_env_def empty_world_def error_payload_def js_object_def new_Error_def
        trim_def is_js_whitespace_def js_str_def)
  have w7: "responses (snd (generate_cover_letter
    (fixed_env (Inr JNull) (Inr (Some (js_str '' \<newline> ''))) (Inr []) None)
    \<lparr>req_file = Some \<lparr>fieldname = js_str ''resume'', originalname = js_str ''cv.pdf'',
      mimetype = js_str ''application/pdf'', size_bytes = 10240,
      path = js_str ''uploads/1730000000000-cv.pdf''\<rparr>,
    req_body = JObj [(js_str ''jobDescription'', JStr (js_str ''Engineer''))]\<rparr>
    empty_world))
   = [\<lparr>status = 500, body = JObj
       [(js_str ''error'', JStr (js_str ''Could not extract text from resume PDF''))]\<rparr>]"
    using handler_errors_surface [where env = "(fixed_env (Inr JNull) (Inr (Some (js_str '' \<newline> ''))) (Inr []) None)" and req = "\<lparr>req_file = Some \<lparr>fieldname = js_str ''resume'', originalname = js_str ''cv.pdf'',       mimetype = js_str ''application/pdf'', size_bytes = 10240,       path = js_str ''uploads/1730000000000-cv.pdf''\<rparr>,     req_body = JObj [(js_str ''jobDescription'', JStr (js_str ''Engineer''))]\<rparr>" and f = "\<lparr>fieldname = js_str ''resume'', originalname = js_str ''cv.pdf'',       mimetype = js_str ''application/pdf'', size_bytes = 10240,       path = js_str ''uploads/1730000000000-cv.pdf''\<rparr>" and x = "Some (js_str '' \<newline> '')" and w = "empty_world", THEN conjunct2, THEN conjunct2, THEN conjunct2, THEN conjunct2, THEN conjunct2, THEN conjunct2, THEN conjunct1]
    by (simp add: e fixed_env_def empty_world_def error_payload_def js_object_def new_Error_def
        trim_def is_js_whitespace_def js_str_def)
  have w8: "responses (snd (ats_check
    (fixed_env (Inr JNull) (Inr (Some (js_str ''Jane Doe'')))
      (Inl \<lparr>message = js_str ''quota exceeded'', stack = js_str ''Error: quota exceeded''\<rparr>)
      (Some (js_str ''development'')))
    \<lparr>req_file = Some \<lparr>fieldname = js_str ''resume'', originalname = js_str ''cv.pdf'',
      mimetype = js_str ''application/pdf'', size_bytes = 10240,
      path = js_str ''uploads/1730000000000-cv.pdf''\<rparr>,
    req_body = JObj [(js_str ''jobDescription'', JStr (js_str ''Engineer''))]\<rparr>
    empty_world))
   = [\<lparr>status = 500, body = JObj
       [(js_str ''error'', JStr (js_str ''quota exceeded'')),
        (js_str ''details'', JStr (js_str ''Error: quota exceeded''))]\<rparr>]"
    using handler_errors_surface [where env = "(fixed_env (Inr JNull) (Inr (Some (js_str ''Jane Doe'')))       (Inl \<lparr>message = js_str ''quota exceeded'', stack = js_str ''Error: quota exceeded''\<rparr>)       (Some (js_str ''development'')))" and req = "\<lparr>req_file = Some \<lparr>fieldname = js_str ''resume'', originalname = js_str ''cv.pdf'',       mimetype = js_str ''application/pdf'', size_bytes = 10240,       path = js_str ''uploads/1730000000000-cv.pdf''\<rparr>,     req_body = JObj [(js_str ''jobDescription'', JStr (js_str ''Engineer''))]\<rparr>" and f = "\<lparr>fieldname = js_str ''resume'', originalname = js_str ''cv.pdf'',       mimetype = js_str ''application/pdf'', size_bytes = 10240,       path = js_str ''uploads/1730000000000-cv.pdf''\<rparr>" and s = "js_str ''Jane Doe''" and e = "\<lparr>message = js_str ''quota exceeded'', stack = js_str ''Error: quota exceeded''\<rparr>" and w = "empty_world", THEN conjunct2, THEN conjunct2, THEN conjunct2, THEN conjunct2, THEN conjunct2, THEN conjunct2, THEN conjunct2, THEN conjunct1]
    by (simp add: e fixed_env_def empty_world_def error_payload_def js_object_def new_Error_def
        trim_def is_js_whitespace_def js_str_def)
  have w9: "responses (snd (generate_cover_letter
    (fixed_env (Inr JNull) (Inr (Some (js_str ''Jane Doe'')))
      (Inl \<lparr>message = js_str ''quota exceeded'', stack = js_str ''Error: quota exceeded''\<rparr>)
      (Some (js_str ''development'')))
    \<lparr>req_file = Some \<lparr>fieldname = js_str ''resume'', originalname = js_str ''cv.pdf'',
      mimetype = js_str ''application/pdf'', size_bytes = 10240,
      path = js_str ''uploads/1730000000000-cv.pdf''\<rparr>,
    req_body = JObj [(js_str ''jobDescription'', JStr (js_str ''Engineer''))]\<rparr>
    empty_world))
   = [\<lparr>status = 500, body = JObj
       [(js_str ''error'', JStr (js_str ''quota exceeded'')),
        (js_str ''details'', JStr (js_str ''Error: quota exceeded''))]\<rparr>]"
    using handler_errors_surface [where env = "(fixed_env (Inr JNull) (Inr (Some (js_str ''Jane Doe'')))       (Inl \<lparr>message = js_str ''quota exceeded'', stack = js_str ''Error: quota exceeded''\<rparr>)       (Some (js_str ''development'')))" and req = "\<lparr>req_file = Some \<lparr>fieldname = js_str ''resume'', originalname = js_str ''cv.pdf'',       mimetype = js_str ''application/pdf'', size_bytes = 10240,       path = js_str ''uploads/1730000000000-cv.pdf''\<rparr>,     req_body = JObj [(js_str ''jobDescription'', JStr (js_str ''Engineer''))]\<rparr>" and f = "\<lparr>fieldname = js_str ''resume'', originalname = js_str ''cv.pdf'',       mimetype = js_str ''application/pdf'', size_bytes = 10240,       path = js_str ''uploads/1730000000000-cv.pdf''\<rparr>" and s = "js_str ''Jane Doe''" and jd = "js_str ''Engineer''" and e = "\<lparr>message = js_str ''quota exceeded'', stack = js_str ''Error: quota exceeded''\<rparr>" and w = "empty_world", THEN conjunct2, THEN conjunct2, THEN conjunct2, THEN conjunct2, THEN conjunct2, THEN conjunct2, THEN conjunct2, THEN conjunct2, THEN conjunct1]
    by (simp add: e fixed_env_def empty_world_def error_payload_def js_object_def new_Error_def
        trim_def is_js_whitespace_def js_str_def)
  have w10: "responses (snd (generate_cover_letter_text
    (fixed_env (Inr JNull) (Inr None) (Inr []) None)
    \<lparr>req_file = None, req_body = JObj [(js_str ''jobDescription'', JStr (js_str ''Engineer''))]\<rparr>
    empty_world))
   = [\<lparr>status = 400, body = JObj
       [(js_str ''success'', JBool False),
        (js_str ''error'',
           JStr (js_str ''Both job description and skills/experience are required''))]\<rparr>]"
    using handler_errors_surface [where env = "(fixed_env (Inr JNull) (Inr None) (Inr []) None)" and req = "\<lparr>req_file = None, req_body = JObj [(js_str ''jobDescription'', JStr (js_str ''Engineer''))]\<rparr>" and w = "empty_world", THEN conjunct2, THEN conjunct2, THEN conjunct2, THEN conjunct2, THEN conjunct2, THEN conjunct2, THEN conjunct2, THEN conjunct2, THEN conjunct2, THEN conjunct1]
    by (simp add: e fixed_env_def empty_world_def error_payload_def js_object_def new_Error_def
        trim_def is_js_whitespace_def js_str_def)
  have w11: "responses (snd (generate_cover_letter_text
    (fixed_env (Inr JNull) (Inr (Some (js_str ''Jane Doe'')))
      (Inl \<lparr>message = js_str ''quota exceeded'', stack = js_str ''Error: quota exceeded''\<rparr>)
      (Some (js_str ''development'')))
    \<lparr>req_file = None,
    req_body = JObj [(js_str ''jobDescription'', JStr (js_str ''Engineer'')),
            (js_str ''skillsExperience'', JStr (js_str ''Five years''))]\<rparr>
    empty_world))
   = [\<lparr>status = 500, body = JObj
       [(js_str ''success'', JBool False),
        (js_str ''error'', JStr (js_str ''Failed to generate cover letter'')),
        (js_str ''details'', JStr (js_str ''quota exceeded''))]\<rparr>]"
    using handler_errors_surface [where env = "(fixed_env (Inr JNull) (Inr (Some (js_str ''Jane Doe'')))       (Inl \<lparr>message = js_str ''quota exceeded'', stack = js_str ''Error: quota exceeded''\<rparr>)       (Some (js_str ''development'')))" and req = "\<lparr>req_file = None,     req_body = JObj [(js_str ''jobDescription'', JStr (js_str ''Engineer'')),             (js_str ''skillsExperience'', JStr (js_str ''Five years''))]\<rparr>" and se = "js_str ''Five years''" and jd = "js_str ''Engineer''" and e = "\<lparr>message = js_str ''quota exceeded'', stack = js_str ''Error: quota exceeded''\<rparr>" and w = "empty_world", THEN conjunct2, THEN conjunct2, THEN conjunct2, THEN conjunct2, THEN conjunct2, THEN conjunct2, THEN conjunct2, THEN conjunct2, THEN conjunct2, THEN conjunct2, THEN conjunct1]
    by (simp add: e fixed_env_def empty_world_def error_payload_def js_object_def new_Error_def
        trim_def is_js_whitespace_def js_str_def)
  have w12: "(\<exists>err. fst (route (fixed_env (Inr JNull) (Inr None) (Inr []) None) ats_check
    \<lparr>part = Some \<lparr>fieldname = js_str ''resume'', originalname = js_str ''photo.png'',
      mimetype = js_str ''image/png'', size_bytes = 10240\<rparr>,
    text_fields = JObj []\<rparr>
    empty_world) = Inl err)
   \<and> responses (snd (route (fixed_env (Inr JNull) (Inr None) (Inr []) None) ats_check
    \<lparr>part = Some \<lparr>fieldname = js_str ''resume'', originalname = js_str ''photo.png'',
      mimetype = js_str ''image/png'', size_bytes = 10240\<rparr>,
    text_fields = JObj []\<rparr>
    empty_world)) = []"
    using handler_errors_surface [where env = "(fixed_env (Inr JNull) (Inr None) (Inr []) None)" and r = "\<lparr>part = Some \<lparr>fieldname = js_str ''resume'', originalname = js_str ''photo.png'',       mimetype = js_str ''image/png'', size_bytes = 10240\<rparr>,     text_fields = JObj []\<rparr>" and i = "\<lparr>fieldname = js_str ''resume'', originalname = js_str ''photo.png'',       mimetype = js_str ''image/png'', size_bytes = 10240\<rparr>" and handler = "ats_check" and w = "empty_world", THEN conjunct2, THEN conjunct2, THEN conjunct2, THEN conjunct2, THEN conjunct2, THEN conjunct2, THEN conjunct2, THEN conjunct2, THEN conjunct2, THEN conjunct2, THEN conjunct2, THEN conjunct1]
    by (simp add: e fixed_env_def empty_world_def error_payload_def js_object_def new_Error_def
        trim_def is_js_whitespace_def js_str_def)
  have w13: "(\<exists>err. fst (route (fixed_env (Inr JNull) (Inr None) (Inr []) None) ats_check
    \<lparr>part = Some \<lparr>fieldname = js_str ''resume'', originalname = js_str ''cv.pdf'',
      mimetype = js_str ''application/pdf'', size_bytes = 6291456\<rparr>,
    text_fields = JObj []\<rparr>
    empty_world) = Inl err)
   \<and> responses (snd (route (fixed_env (Inr JNull) (Inr None) (Inr []) None) ats_check
    \<lparr>part = Some \<lparr>fieldname = js_str ''resume'', originalname = js_str ''cv.pdf'',
      mimetype = js_str ''application/pdf'', size_bytes = 6291456\<rparr>,
    text_fields = JObj []\<rparr>
    empty_world)) = []"
    using handler_errors_surface [where env = "(fixed_env (Inr JNull) (Inr None) (Inr []) None)" and r = "\<lparr>part = Some \<lparr>fieldname = js_str ''resume'', originalname = js_str ''cv.pdf'',       mimetype = js_str ''application/pdf'', size_bytes = 6291456\<rparr>,     text_fields = JObj []\<rparr>" and i = "\<lparr>fieldname = js_str ''resume'', originalname = js_str ''cv.pdf'',       mimetype = js_str ''application/pdf'', size_bytes = 6291456\<rparr>" and handler = "ats_check" and w = "empty_world", THEN conjunct2, THEN conjunct2, THEN conjunct2, THEN conjunct2, THEN conjunct2, THEN conjunct2, THEN conjunct2, THEN conjunct2, THEN conjunct2, THEN conjunct2, THEN conjunct2, THEN conjunct1]
    by (simp add: e fixed_env_def empty_world_def error_payload_def js_object_def new_Error_def
        trim_def is_js_whitespace_def js_str_def)
  show ?thesis
    by (intro conjI w1 [THEN conjunct1] w1 [THEN conjunct2] w3 w4 w5 w6 w7 w8 w9 w10 w11
        w12 [THEN conjunct1] w12 [THEN conjunct2] w13 [THEN conjunct1] w13 [THEN conjunct2])
qed

text \<open>
  Claim C7 as it is written fails in four places.  On the text route a missing text field
  is answered with status 400, and the error of a generation failure is the fixed text,
  not the failure's message.  A PNG and a PDF of 6 MiB end the ATS route with the
  middleware's error: the handler has not run, and no response has been sent by the
  source.
\<close>

theorem uniform_500_counterexample:
  \<open>map status (responses (snd (generate_cover_letter_text
        (fixed_env (Inr JNull) (Inr None) (Inr (js_str ''Dear team'')) None)
        \<lparr>req_file = None,
          req_body = JObj [(js_str ''jobDescription'', JStr (js_str ''Engineer''))]\<rparr>
        empty_world))) = [400]
    \<and> map (\<lambda>r. field (body r) ''error'') (responses (snd (generate_cover_letter_text
        (fixed_env (Inr JNull) (Inr None)
           (Inl \<lparr>message = js_str ''quota exceeded'', stack = js_str ''Error: quota exceeded''\<rparr>)
           None)
        \<lparr>req_file = None,
          req_body = JObj [(js_str ''jobDescription'', JStr (js_str ''Engineer'')),
                           (js_str ''skillsExperience'', JStr (js_str ''Five years''))]\<rparr>
        empty_world))) = [Some (JStr (js_str ''Failed to generate cover letter''))]
    \<and> route (fixed_env (Inr JNull) (Inr (Some (js_str ''Jane Doe''))) (Inr (js_str ''{}'')) None)
        ats_check
        \<lparr>part = Some \<lparr>fieldname = js_str ''resume'', originalname = js_str ''photo.png'',
                        mimetype = js_str ''image/png'', size_bytes = 10240\<rparr>,
          text_fields = JObj []\<rparr>
        empty_world
      = (Inl \<lparr>message = js_str ''Only PDF files are allowed'',
              stack = js_str ''Error: Only PDF files are allowed''\<rparr>,
         \<lparr>files = [], trace = []\<rparr>)
    \<and> route (fixed_env (Inr JNull) (Inr (Some (js_str ''Jane Doe''))) (Inr (js_str ''{}'')) None)
        ats_check
        \<lparr>part = Some \<lparr>fieldname = js_str ''resume'', originalname = js_str ''cv.pdf'',
                        mimetype = js_str ''application/pdf'', size_bytes = 6291456\<rparr>,
          text_fields = JObj []\<rparr>
        empty_world
      = (Inl \<lparr>message = js_str ''File too large'', stack = js_str ''Error: File too large''\<rparr>,
         \<lparr>files = [], trace = []\<rparr>)\<close>
proof -
  have a: "js_str ''Error: '' @ js_str m = js_str (''Error: '' @ m)" for m
    by (simp add: js_str_def)
  show ?thesis
    by (simp add: generate_cover_letter_text_def text_try_def route_def upload_single_def
        fileFilter_def fileSize_def new_Error_def fixed_env_def res_json_def js_object_def
        responses_def emit_def empty_world_def Let_def a)
qed

section \<open>The uploaded file\<close>

text \<open>
  The ATS handler records the path of the uploaded file as soon as it has found the file,
  and its \<^verbatim>\<open>finally\<close> block removes a regular file at that path whatever the outcome of
  the \<^verbatim>\<open>try\<close> block.  The cover-letter handler records the path only after it has found
  the job description: when that is missing the \<^verbatim>\<open>finally\<close> block has no path, nothing
  is unlinked and the file system is left as the upload middleware made it.
\<close>

lemma ats_normalize_files [simp]: "files (snd (ats_normalize env t w)) = files w"
  by (auto simp: ats_normalize_def ats_strict_def ats_fallback_def res_json_def Let_def
      split: prod.splits sum.splits if_splits)

lemma cover_normalize_files [simp]: "files (snd (cover_normalize env t w)) = files w"
  by (simp add: cover_normalize_def res_json_def split: sum.splits)

lemma ats_normalize_filesD: "ats_normalize env t w = (r, w1) \<Longrightarrow> files w1 = files w"
  using ats_normalize_files [of env t w] by simp

lemma ats_try_file_path:
  assumes "req_file req = Some f"
  shows "\<exists>r w1. ats_try env req w = (r, Some (path f), w1) \<and> files w1 = files w"
  using assms
  by (auto simp: ats_try_def extractTextFromPDF_def Let_def
      split: sum.splits option.splits prod.splits dest: ats_normalize_filesD)

lemma finally_cleanup_removes:
  assumes "p \<noteq> []" and "map_of (files w) p = Some RegularFile"
  shows "\<not> existsSync (files (snd (finally_cleanup env (Some p) w))) p"
  using assms
  by (simp add: finally_cleanup_def cleanupFile_def cleanupFile_try_def existsSync_def
      unlinkSync_def map_of_filter_other)

lemma ats_check_removes_upload:
  assumes "req_file req = Some f" and "path f \<noteq> []"
    and "map_of (files w) (path f) = Some RegularFile"
  shows "\<not> existsSync (files (snd (ats_check env req w))) (path f)"
proof -
  from ats_try_file_path [OF assms(1)] obtain r w1
    where t: "ats_try env req w = (r, Some (path f), w1)" and f: "files w1 = files w" by blast
  show ?thesis
    using assms(2,3) f
    by (cases r) (simp_all add: ats_check_def t finally_cleanup_removes res_json_def)
qed

lemma cover_letter_keeps_upload:
  assumes "req_file req = Some f"
    and "\<not> truthy_opt (field (req_body req) ''jobDescription'')"
  shows "files (snd (generate_cover_letter env req w)) = files w"
    and "filter (\<lambda>e. case e of UnlinkCall p \<Rightarrow> True | _ \<Rightarrow> False)
           (trace (snd (generate_cover_letter env req w)))
         = filter (\<lambda>e. case e of UnlinkCall p \<Rightarrow> True | _ \<Rightarrow> False) (trace w)"
proof -
  have "\<exists>err. cover_try env req w = (Inl err, None, w)"
    using assms
    by (cases "req_body req = JNull") (auto simp: cover_try_def get_prop_field)
  then obtain err where "cover_try env req w = (Inl err, None, w)" ..
  then show "files (snd (generate_cover_letter env req w)) = files w"
    and "filter (\<lambda>e. case e of UnlinkCall p \<Rightarrow> True | _ \<Rightarrow> False)
           (trace (snd (generate_cover_letter env req w)))
         = filter (\<lambda>e. case e of UnlinkCall p \<Rightarrow> True | _ \<Rightarrow> False) (trace w)"
    by (simp_all add: generate_cover_letter_def finally_cleanup_def res_json_def)
qed

lemma cover_try_file_path:
  assumes "req_file req = Some f" and "truthy_opt (field (req_body req) ''jobDescription'')"
  shows "\<exists>r w1. cover_try env req w = (r, Some (path f), w1) \<and> files w1 = files w"
proof -
  from assms(2) have "req_body req \<noteq> JNull" by (cases "req_body req") auto
  then have g: "get_prop env (req_body req) ''jobDescription'' = Inr (field (req_body req) ''jobDescription'')"
    by (rule get_prop_field)
  have d: "cover_normalize env t w0 = (r, w1) \<Longrightarrow> files w1 = files w0" for t w0 r w1
    using cover_normalize_files [of env t w0] by simp
  show ?thesis
    using assms
    by (auto simp: cover_try_def g extractTextFromPDF_def Let_def
        split: sum.splits option.splits prod.splits dest: d)
qed

lemma cover_letter_removes_upload:
  assumes "req_file req = Some f" and "truthy_opt (field (req_body req) ''jobDescription'')"
    and "path f \<noteq> []" and "map_of (files w) (path f) = Some RegularFile"
  shows "\<not> existsSync (files (snd (generate_cover_letter env req w))) (path f)"
proof -
  from cover_try_file_path [OF assms(1,2)] obtain r w1
    where t: "cover_try env req w = (r, Some (path f), w1)" and f: "files w1 = files w" by blast
  show ?thesis
    using assms(3,4) f
    by (cases r) (simp_all add: generate_cover_letter_def t finally_cleanup_removes res_json_def)
qed

text \<open>
  Claim C4 at a failing input: a PDF of 10 KB posted to \<^verbatim>\<open>/api/generate-cover-letter\<close>
  with no \<open>jobDescription\<close> field.  The middleware persists the file, the handler answers
  500 with \<open>No job description provided\<close>, no unlink is attempted and the file is still
  on disk when the handler has ended.
\<close>

theorem cover_letter_upload_left_on_disk:
  \<open>route (fixed_env (Inr JNull) (Inr (Some (js_str ''Jane Doe, engineer'')))
            (Inr (js_str ''Dear team'')) None)
      generate_cover_letter
      \<lparr>part = Some \<lparr>fieldname = js_str ''resume'', originalname = js_str ''cv.pdf'',
                      mimetype = js_str ''application/pdf'', size_bytes = 10240\<rparr>,
        text_fields = JObj []\<rparr>
      empty_world
    = (Inr (),
       \<lparr>files = [(js_str ''uploads/1730000000000-cv.pdf'', RegularFile),
                 (js_str ''uploads'', Directory)],
        trace = [ConsoleError ''Error in cover letter generation:''
                   \<lparr>message = js_str ''No job description provided'',
                    stack = js_str ''Error: No job description provided''\<rparr>,
                 Respond \<lparr>status = 500, body = JObj
                   [(js_str ''error'', JStr (js_str ''No job description provided''))]\<rparr>]\<rparr>)
    \<and> existsSync
        (files (snd (route (fixed_env (Inr JNull) (Inr (Some (js_str ''Jane Doe, engineer'')))
            (Inr (js_str ''Dear team'')) None)
          generate_cover_letter
          \<lparr>part = Some \<lparr>fieldname = js_str ''resume'', originalname = js_str ''cv.pdf'',
                          mimetype = js_str ''application/pdf'', size_bytes = 10240\<rparr>,
            text_fields = JObj []\<rparr>
          empty_world)))
        (js_str ''uploads/1730000000000-cv.pdf'')\<close>
proof -
  let ?E = "fixed_env (Inr JNull) (Inr (Some (js_str ''Jane Doe, engineer'')))
            (Inr (js_str ''Dear team'')) None"
  let ?R = "\<lparr>part = Some \<lparr>fieldname = js_str ''resume'', originalname = js_str ''cv.pdf'',
                      mimetype = js_str ''application/pdf'', size_bytes = 10240\<rparr>,
        text_fields = JObj []\<rparr>"
  let ?p = "js_str ''uploads/1730000000000-cv.pdf''"
  let ?F = "\<lparr>fieldname = js_str ''resume'', originalname = js_str ''cv.pdf'',
             mimetype = js_str ''application/pdf'', size_bytes = 10240, path = ?p\<rparr>"
  let ?w = "\<lparr>files = [(?p, RegularFile), (js_str ''uploads'', Directory)], trace = []\<rparr>"
  have p: "js_str ''uploads'' @ js_str ''/'' @ filename ?E
             \<lparr>fieldname = js_str ''resume'', originalname = js_str ''cv.pdf'',
              mimetype = js_str ''application/pdf'', size_bytes = 10240\<rparr> = ?p"
    by (simp add: filename_def fixed_env_def js_str_def)
  have u: "upload_single ?E ?R empty_world
      = (Inr \<lparr>req_file = Some ?F, req_body = JObj []\<rparr>, ?w)"
    by (simp add: upload_single_def destination_def Let_def p fileFilter_def fileSize_def
        existsSync_def empty_world_def incoming_file.extend_def uploaded_file.fields_def)
  have h: "generate_cover_letter ?E \<lparr>req_file = Some ?F, req_body = JObj []\<rparr> ?w
      = (Inr (),
         \<lparr>files = [(?p, RegularFile), (js_str ''uploads'', Directory)],
          trace = [ConsoleError ''Error in cover letter generation:''
                     \<lparr>message = js_str ''No job description provided'',
                      stack = js_str ''Error: No job description provided''\<rparr>,
                   Respond \<lparr>status = 500, body = JObj
                     [(js_str ''error'', JStr (js_str ''No job description provided''))]\<rparr>]\<rparr>)"
    by (simp add: generate_cover_letter_def cover_try_def finally_cleanup_def error_payload_def
        js_object_def res_json_def emit_def new_Error_def fixed_env_def)
       (simp add: js_str_def)
  have r: "route ?E generate_cover_letter ?R empty_world
      = (Inr (),
         \<lparr>files = [(?p, RegularFile), (js_str ''uploads'', Directory)],
          trace = [ConsoleError ''Error in cover letter generation:''
                     \<lparr>message = js_str ''No job description provided'',
                      stack = js_str ''Error: No job description provided''\<rparr>,
                   Respond \<lparr>status = 500, body = JObj
                     [(js_str ''error'', JStr (js_str ''No job description provided''))]\<rparr>]\<rparr>)"
    by (simp add: route_def u h)
  show ?thesis unfolding r by (simp add: existsSync_def)
qed

section \<open>Rejected uploads\<close>

text \<open>
  Claim C8.  An upload whose declared MIME type is not exactly \<open>application/pdf\<close> (the
  file filter of the source), or whose size exceeds 5 MiB (the limit of the source), is
  refused by the upload middleware: the route ends with the middleware's error, the
  handler does not run and the world is as it was, so the text extractor has not been
  called, the generation client has not been called and nothing has been written.  The
  statement holds for any handler behind the middleware.
\<close>

theorem rejected_upload_reaches_no_handler:
  assumes "part r = Some f"
    and "mimetype f \<noteq> js_str ''application/pdf'' \<or> 5 * 1024 * 1024 < size_bytes f"
  shows "\<exists>e. upload_single env r w = (Inl e, w) \<and> route env handler r w = (Inl e, w)"
  using assms
  by (auto simp: route_def upload_single_def fileFilter_def fileSize_def)

text \<open>A PNG of 10 KB and a PDF of 6 MiB, posted to the ATS route.\<close>

theorem rejected_upload_reaches_no_handler_witness:
  \<open>part \<lparr>part = Some \<lparr>fieldname = js_str ''resume'', originalname = js_str ''photo.png'',
                        mimetype = js_str ''image/png'', size_bytes = 10240\<rparr>,
          text_fields = JObj []\<rparr>
      = Some \<lparr>fieldname = js_str ''resume'', originalname = js_str ''photo.png'',
               mimetype = js_str ''image/png'', size_bytes = 10240\<rparr>
    \<and> mimetype \<lparr>fieldname = js_str ''resume'', originalname = js_str ''photo.png'',
                  mimetype = js_str ''image/png'', size_bytes = 10240\<rparr>
        \<noteq> js_str ''application/pdf''
    \<and> (\<exists>e. route (fixed_env (Inr JNull) (Inr (Some (js_str ''Jane Doe''))) (Inr (js_str ''{}'')) None)
             ats_check
             \<lparr>part = Some \<lparr>fieldname = js_str ''resume'', originalname = js_str ''photo.png'',
                             mimetype = js_str ''image/png'', size_bytes = 10240\<rparr>,
               text_fields = JObj []\<rparr>
             empty_world = (Inl e, empty_world))
    \<and> part \<lparr>part = Some \<lparr>fieldname = js_str ''resume'', originalname = js_str ''cv.pdf'',
                        mimetype = js_str ''application/pdf'', size_bytes = 6291456\<rparr>,
          text_fields = JObj []\<rparr>
      = Some \<lparr>fieldname = js_str ''resume'', originalname = js_str ''cv.pdf'',
               mimetype = js_str ''application/pdf'', size_bytes = 6291456\<rparr>
    \<and> 5 * 1024 * 1024
        < size_bytes \<lparr>fieldname = js_str ''resume'', originalname = js_str ''cv.pdf'',
                       mimetype = js_str ''application/pdf'', size_bytes = 6291456\<rparr>
    \<and> (\<exists>e. route (fixed_env (Inr JNull) (Inr (Some (js_str ''Jane Doe''))) (Inr (js_str ''{}'')) None)
             ats_check
             \<lparr>part = Some \<lparr>fieldname = js_str ''resume'', originalname = js_str ''cv.pdf'',
                             mimetype = js_str ''application/pdf'', size_bytes = 6291456\<rparr>,
               text_fields = JObj []\<rparr>
             empty_world = (Inl e, empty_world))\<close>
proof -
  let ?E = "fixed_env (Inr JNull) (Inr (Some (js_str ''Jane Doe''))) (Inr (js_str ''{}'')) None"
  let ?F1 = "\<lparr>fieldname = js_str ''resume'', originalname = js_str ''photo.png'',
              mimetype = js_str ''image/png'', size_bytes = 10240\<rparr>"
  let ?F2 = "\<lparr>fieldname = js_str ''resume'', originalname = js_str ''cv.pdf'',
              mimetype = js_str ''application/pdf'', size_bytes = 6291456\<rparr>"
  let ?R1 = "\<lparr>part = Some ?F1, text_fields = JObj []\<rparr>"
  let ?R2 = "\<lparr>part = Some ?F2, text_fields = JObj []\<rparr>"
  have a1: "part ?R1 = Some ?F1" by simp
  have a2: "mimetype ?F1 \<noteq> js_str ''application/pdf''" by simp
  have b1: "part ?R2 = Some ?F2" by simp
  have b2: "5 * 1024 * 1024 < size_bytes ?F2" by simp
  from rejected_upload_reaches_no_handler [OF a1 disjI1 [OF a2], of ?E empty_world ats_check]
  have c1: "\<exists>e. route ?E ats_check ?R1 empty_world = (Inl e, empty_world)" by blast
  from rejected_upload_reaches_no_handler [OF b1 disjI2 [OF b2], of ?E empty_world ats_check]
  have c2: "\<exists>e. route ?E ats_check ?R2 empty_world = (Inl e, empty_world)" by blast
  from a1 a2 b1 b2 c1 c2 show ?thesis by blast
qed

section \<open>A whole request\<close>

text \<open>
  The first scenario of the specification, from the upload to the cleanup: a PDF of 10 KB
  with extractable text, and a collaborator that answers with the JSON asked for.  The
  extractor and the generation client are called once each, the response mirrors the
  parsed fields, and the uploaded file is unlinked after the response has been sent.
\<close>

lemma ats_route_scenario:
  \<open>route
      (fixed_env
        (Inr (JObj [(js_str ''score'', JNum (Fin 82)),
              (js_str ''findings'', JArr [JStr (js_str ''Good keyword density'')]),
              (js_str ''suggestions'', JArr [JStr (js_str ''Add metrics'')])]))
        (Inr (Some (js_str ''Jane Doe, engineer'')))
        (Inr (js_str ''{"score":82,"findings":["Good keyword density"],"suggestions":["Add metrics"]}''))
        None)
      ats_check
      \<lparr>part = Some \<lparr>fieldname = js_str ''resume'', originalname = js_str ''cv.pdf'',
                      mimetype = js_str ''application/pdf'', size_bytes = 10240\<rparr>,
        text_fields = JObj []\<rparr>
      empty_world
    = (Inr (),
       \<lparr>files = [(js_str ''uploads'', Directory)],
        trace = [ExtractCall (js_str ''uploads/1730000000000-cv.pdf''),
                 GenerateCall (ats_prompt (js_str ''Jane Doe, engineer'')),
                 Respond \<lparr>status = 200, body = JObj
                   [(js_str ''score'', JNum (Fin 82)),
                    (js_str ''findings'', JArr [JStr (js_str ''Good keyword density'')]),
                    (js_str ''suggestions'', JArr [JStr (js_str ''Add metrics'')])]\<rparr>,
                 UnlinkCall (js_str ''uploads/1730000000000-cv.pdf'')]\<rparr>)\<close>
proof -
  let ?P = "JObj [(js_str ''score'', JNum (Fin 82)),
              (js_str ''findings'', JArr [JStr (js_str ''Good keyword density'')]),
              (js_str ''suggestions'', JArr [JStr (js_str ''Add metrics'')])]"
  let ?T = "js_str ''{\"score\":82,\"findings\":[\"Good keyword density\"],\"suggestions\":[\"Add metrics\"]}''"
  let ?E = "fixed_env (Inr ?P) (Inr (Some (js_str ''Jane Doe, engineer''))) (Inr ?T) None"
  let ?I = "\<lparr>fieldname = js_str ''resume'', originalname = js_str ''cv.pdf'',
             mimetype = js_str ''application/pdf'', size_bytes = 10240\<rparr>"
  let ?p = "js_str ''uploads/1730000000000-cv.pdf''"
  let ?F = "\<lparr>fieldname = js_str ''resume'', originalname = js_str ''cv.pdf'',
             mimetype = js_str ''application/pdf'', size_bytes = 10240, path = ?p\<rparr>"
  let ?w = "\<lparr>files = [(?p, RegularFile), (js_str ''uploads'', Directory)], trace = []\<rparr>"
  have p: "js_str ''uploads'' @ js_str ''/'' @ filename ?E ?I = ?p"
    by (simp add: filename_def fixed_env_def js_str_def)
  have u: "upload_single ?E \<lparr>part = Some ?I, text_fields = JObj []\<rparr> empty_world
      = (Inr \<lparr>req_file = Some ?F, req_body = JObj []\<rparr>, ?w)"
    by (simp add: upload_single_def destination_def Let_def p fileFilter_def fileSize_def
        existsSync_def empty_world_def incoming_file.extend_def uploaded_file.fields_def)
  have ne: "js_str ''Jane Doe, engineer'' \<noteq> []" "trim (js_str ''Jane Doe, engineer'') \<noteq> []"
    by (simp_all add: trim_def js_str_def is_js_whitespace_def)
  have pne: "?p \<noteq> []" by simp
  have h: "ats_check ?E \<lparr>req_file = Some ?F, req_body = JObj []\<rparr> ?w
      = (Inr (),
         \<lparr>files = [(js_str ''uploads'', Directory)],
          trace = [ExtractCall ?p, GenerateCall (ats_prompt (js_str ''Jane Doe, engineer'')),
                   Respond \<lparr>status = 200, body = ?P\<rparr>, UnlinkCall ?p]\<rparr>)"
    using ne pne
    by (simp add: ats_check_def ats_try_def extractTextFromPDF_def ats_normalize_def
        ats_strict_def finally_cleanup_def cleanupFile_def cleanupFile_try_def existsSync_def
        unlinkSync_def js_object_def res_json_def emit_def fixed_env_def Let_def)
  show ?thesis by (simp add: route_def u h)
qed

end
